theory Spec2Isabelle
  imports Main "HOL-Library.AList"
begin

section \<open>Data model\<close>

text \<open>
  The development follows the match engine of the backend: the models of players, matches
  and statistics (in the sources: \<^verbatim>\<open>unnamed/part_008\<close>, \<^verbatim>\<open>part_009\<close> and
  \<^verbatim>\<open>part_007\<close>), the match controller (\<^verbatim>\<open>config/env.js\<close>, after the configuration
  block), the schedule controller (\<^verbatim>\<open>unnamed/part_005\<close>) and the request validation
  (\<^verbatim>\<open>unnamed/part_011\<close>).

  The collections of the document store are lists of documents, in the order in which a
  query returns them. Object ids are natural numbers. Dates are integers, the milliseconds
  since the epoch, within the range of \<^verbatim>\<open>Date\<close> (at most 8.64e15 in magnitude); the
  difference of two dates is a double. Numeric fields hold integers. The free-text fields of
  a match (opponent, venue, notes) are left out of the records.

  A handler that loads a match with \<^verbatim>\<open>populate('teamSheet', 'name jerseyNumber position')\<close>
  holds, in place of the ids of the team sheet, the selected fields of the Player documents
  that exist; an id without a document is dropped from the array it holds, and the stored
  team sheet keeps it. \<^verbatim>\<open>toString()\<close> gives the hexadecimal text of an id and the printed
  form of such a document, which shows the id and the selected fields. The two are never
  equal, and the ledger is keyed by these strings: \<open>IdKey\<close> and \<open>DocKey\<close>. An id in a
  request is taken in the spelling of the store. The checks that the library itself makes on
  the keys of a map are not in the sources and are not modelled.
\<close>

type_synonym player_id = nat
type_synonym match_id = nat
type_synonym date = int

text \<open>models/Player.js: \<^verbatim>\<open>playerSchema\<close>.\<close>

record player =
  p_id :: player_id
  name :: string
  jerseyNumber :: int
  position :: string
  injuryStatus :: string
  preferredPositions :: "string list"
  availability :: bool

text \<open>A populated element of a team sheet, and the strings that \<^verbatim>\<open>toString()\<close> gives.\<close>

record populated_player =
  pp_id :: player_id
  pp_name :: string
  pp_jerseyNumber :: int
  pp_position :: string

datatype ledger_key = IdKey player_id | DocKey populated_player

definition populated :: "player \<Rightarrow> populated_player" where
  "populated p = \<lparr>pp_id = p_id p, pp_name = name p, pp_jerseyNumber = jerseyNumber p,
                  pp_position = position p\<rparr>"

text \<open>models/Match.js: \<^verbatim>\<open>substitutionSchema\<close>, \<^verbatim>\<open>playerPerformanceSchema\<close>,
  \<^verbatim>\<open>matchResultSchema\<close>, \<^verbatim>\<open>matchSchema\<close>. The \<^verbatim>\<open>playtime\<close> field is a JavaScript
  \<^verbatim>\<open>Map\<close>: an association list kept in insertion order.\<close>

record substitution =
  playerIn :: player_id
  playerOut :: player_id
  time :: date
  reason :: string

record player_performance =
  playerId :: player_id
  goals :: int
  assists :: int
  yellowCards :: int
  redCards :: int
  rating :: "int option"
  playerOfMatch :: bool
  minutesPlayed :: int

record match_result =
  result :: string
  ourScore :: int
  opponentScore :: int

datatype match_type = TypeMatch | TypeTraining

datatype match_status = Scheduled | Ongoing | Completed | Cancelled

record match =
  m_id :: match_id
  date :: date
  mtype :: match_type
  teamSheet :: "player_id list"
  substitutions :: "substitution list"
  playtime :: "(ledger_key \<times> int) list"
  status :: match_status
  duration :: int
  matchResult :: "match_result option"
  playerPerformances :: "player_performance list"
  createdAt :: date

text \<open>models/Statistics.js: \<^verbatim>\<open>statisticsSchema\<close>. An element of \<^verbatim>\<open>positionsPlayed\<close> is
  \<open>None\<close> where the code stores \<^verbatim>\<open>undefined\<close>.\<close>

record statistics =
  s_playerId :: player_id
  s_matchId :: match_id
  s_minutesPlayed :: int
  positionsPlayed :: "string option list"
  substitutionsCount :: int
  injuries :: "string list"
  s_playerOfMatch :: bool
  s_goals :: int
  s_assists :: int
  s_yellowCards :: int
  s_redCards :: int
  s_rating :: "int option"

record db =
  players :: "player list"
  matches :: "match list"
  stats :: "statistics list"

text \<open>
  What a handler answers: \<^verbatim>\<open>res.status(c).json({success: false, message})\<close> is
  \<open>Failure c message\<close>, \<^verbatim>\<open>res.status(c).json({success: true, data})\<close> is \<open>Success c data\<close>,
  and an exception handed to \<^verbatim>\<open>next(error)\<close> is \<open>NextError\<close> with the error's name.
  Every handler returns its answer together with the store it leaves behind.
\<close>

datatype 'a response = Failure nat string | Success nat 'a | NextError string

section \<open>Store access\<close>

definition findPlayerById :: "db \<Rightarrow> player_id \<Rightarrow> player option" where
  "findPlayerById d i = find (\<lambda>p. p_id p = i) (players d)"

definition findMatchById :: "db \<Rightarrow> match_id \<Rightarrow> match option" where
  "findMatchById d i = find (\<lambda>m. m_id m = i) (matches d)"

text \<open>\<^verbatim>\<open>match.save()\<close> of a document that was read from the store writes it back under its
  \<^verbatim>\<open>_id\<close>.\<close>

text \<open>The team sheet as a handler holds it after \<^verbatim>\<open>populate\<close>.\<close>

definition populateTeamSheet :: "db \<Rightarrow> match \<Rightarrow> populated_player list" where
  "populateTeamSheet d m =
     concat (map (\<lambda>i. case findPlayerById d i of None \<Rightarrow> [] | Some p \<Rightarrow> [populated p])
                 (teamSheet m))"

definition saveMatch :: "match \<Rightarrow> db \<Rightarrow> db" where
  "saveMatch m d = d\<lparr>matches := map (\<lambda>x. if m_id x = m_id m then m else x) (matches d)\<rparr>"

text \<open>The validators that the schemas of models/Match.js declare, which \<^verbatim>\<open>save\<close> runs;
  a failing validator makes \<^verbatim>\<open>save\<close> throw a \<^verbatim>\<open>ValidationError\<close> before anything is
  written. The model validates the whole document at every save. Every write to the
  collection validates what it writes, so a stored document passes these validators, and
  on such a document validating everything and validating the modified paths agree.\<close>

definition validSubstitution :: "substitution \<Rightarrow> bool" where
  "validSubstitution s \<longleftrightarrow> length (reason s) \<le> 200"

definition validRating :: "int option \<Rightarrow> bool" where
  "validRating r = (case r of None \<Rightarrow> True | Some v \<Rightarrow> 1 \<le> v \<and> v \<le> 10)"

definition validPerformance :: "player_performance \<Rightarrow> bool" where
  "validPerformance p \<longleftrightarrow>
     0 \<le> goals p \<and> 0 \<le> assists p \<and> 0 \<le> yellowCards p \<and> 0 \<le> redCards p \<and>
     validRating (rating p) \<and> 0 \<le> minutesPlayed p"

definition validMatchResult :: "match_result \<Rightarrow> bool" where
  "validMatchResult r \<longleftrightarrow>
     result r \<in> set [''win'', ''loss'', ''draw''] \<and> 0 \<le> ourScore r \<and> 0 \<le> opponentScore r"

definition validMatch :: "match \<Rightarrow> bool" where
  "validMatch m \<longleftrightarrow>
     list_all validSubstitution (substitutions m) \<and>
     1 \<le> duration m \<and> duration m \<le> 200 \<and>
     (case matchResult m of None \<Rightarrow> True | Some r \<Rightarrow> validMatchResult r) \<and>
     list_all validPerformance (playerPerformances m)"

section \<open>Methods of the match document (models/Match.js)\<close>

text \<open>\<^verbatim>\<open>this.playtime.get(playerId.toString()) || 0\<close>; the argument is the string that
  \<^verbatim>\<open>toString()\<close> gives for what the caller passes.\<close>

definition getPlayerPlaytime :: "match \<Rightarrow> ledger_key \<Rightarrow> int" where
  "getPlayerPlaytime m k = (case map_of (playtime m) k of None \<Rightarrow> 0 | Some v \<Rightarrow> v)"

text \<open>\<^verbatim>\<open>this.playtime.set(playerId.toString(), minutes)\<close>: an existing key keeps its place,
  a new key goes to the end.\<close>

definition updatePlayerPlaytime :: "match \<Rightarrow> ledger_key \<Rightarrow> int \<Rightarrow> match" where
  "updatePlayerPlaytime m k minutes = m\<lparr>playtime := AList.update k minutes (playtime m)\<rparr>"

text \<open>The difference of two dates, \<^verbatim>\<open>a - b\<close>, is a double: an integer of magnitude up to
  \<open>2 ^ 53 = 9007199254740992\<close> is kept, a larger one is rounded to the nearest multiple of
  the spacing of the doubles at its magnitude, a tie going to the even multiple. Divided by 60000 and rounded
  down by \<^verbatim>\<open>Math.floor\<close>, the difference of two dates in the range of \<^verbatim>\<open>Date\<close> gives the
  integer quotient \<open>div\<close>, which rounds towards minus infinity.\<close>

function doubleSpacing :: "int \<Rightarrow> int" where
  "doubleSpacing a = (if a < 9007199254740992 then 1 else 2 * doubleSpacing (a div 2))"
  by pat_completeness auto
termination
  by (relation "measure nat") auto

definition roundToSpacing :: "int \<Rightarrow> int \<Rightarrow> int" where
  "roundToSpacing a sp =
     (let q = a div sp; r = a mod sp
      in if 2 * r < sp then q * sp
         else if sp < 2 * r then (q + 1) * sp
         else if even q then q * sp else (q + 1) * sp)"

definition toDouble :: "int \<Rightarrow> int" where
  "toDouble x =
     (if x < 0 then - roundToSpacing (- x) (doubleSpacing (- x))
      else roundToSpacing x (doubleSpacing x))"

definition minutesBetween :: "date \<Rightarrow> date \<Rightarrow> int" where
  "minutesBetween a b = toDouble (a - b) div (1000 * 60)"

definition calculateTeamGoals :: "match \<Rightarrow> int" where
  "calculateTeamGoals m = foldl (\<lambda>total performance. total + goals performance) 0 (playerPerformances m)"

definition getPlayerPerformance :: "match \<Rightarrow> player_id \<Rightarrow> player_performance option" where
  "getPlayerPerformance m p = find (\<lambda>x. playerId x = p) (playerPerformances m)"

text \<open>\<^verbatim>\<open>updatePlayerPerformance\<close>: \<^verbatim>\<open>Object.assign\<close> onto the first entry of the player
  when there is one, a new entry at the end otherwise. \<open>performanceData\<close> carries every
  field but the player's id, which the method supplies.\<close>

fun assignPerformance :: "player_id \<Rightarrow> player_performance \<Rightarrow> player_performance list \<Rightarrow> player_performance list" where
  "assignPerformance p performanceData [] = []"
| "assignPerformance p performanceData (x # xs) =
     (if playerId x = p then performanceData\<lparr>playerId := playerId x\<rparr> # xs
      else x # assignPerformance p performanceData xs)"

definition updatePlayerPerformance :: "match \<Rightarrow> player_id \<Rightarrow> player_performance \<Rightarrow> match" where
  "updatePlayerPerformance m p performanceData =
     (case getPlayerPerformance m p of
        Some existingPerformance \<Rightarrow>
          m\<lparr>playerPerformances := assignPerformance p performanceData (playerPerformances m)\<rparr>
      | None \<Rightarrow>
          m\<lparr>playerPerformances := playerPerformances m @ [performanceData\<lparr>playerId := p\<rparr>]\<rparr>)"

definition validateMatchResult :: "match \<Rightarrow> match" where
  "validateMatchResult m =
     (case matchResult m of
        None \<Rightarrow> m
      | Some r \<Rightarrow>
          if mtype m \<noteq> TypeMatch then m
          else m\<lparr>matchResult := Some (r\<lparr>ourScore := calculateTeamGoals m\<rparr>)\<rparr>)"

section \<open>Substitution (controllers/matchController.js, \<^verbatim>\<open>makeSubstitution\<close>)\<close>

text \<open>The body of the request. \<open>b_time = None\<close> stands for a \<^verbatim>\<open>time\<close> that is absent or
  falsy, \<open>Some t\<close> for one that \<^verbatim>\<open>new Date(time)\<close> reads as the instant \<open>t\<close>.\<close>

record substitute_body =
  b_playerIn :: player_id
  b_playerOut :: player_id
  b_time :: "date option"
  b_reason :: "string option"
  b_injuryStatus :: "string option"

text \<open>\<^verbatim>\<open>Array.prototype.indexOf\<close>: the first index of the element, \<open>-1\<close> when it is absent.\<close>

fun indexOf :: "'a list \<Rightarrow> 'a \<Rightarrow> int" where
  "indexOf [] x = -1"
| "indexOf (y # ys) x = (if y = x then 0 else (let i = indexOf ys x in if i < 0 then -1 else i + 1))"

text \<open>\<^verbatim>\<open>reason.toLowerCase().includes('injury')\<close> on ASCII text.\<close>

definition toLowerCase :: "string \<Rightarrow> string" where
  "toLowerCase s =
     map (\<lambda>c. let n = (of_char c :: nat) in if 65 \<le> n \<and> n \<le> 90 then char_of (n + 32) else c) s"

fun startsWith :: "string \<Rightarrow> string \<Rightarrow> bool" where
  "startsWith s [] = True"
| "startsWith [] (c # cs) = False"
| "startsWith (x # xs) (c # cs) = (x = c \<and> startsWith xs cs)"

fun str_includes :: "string \<Rightarrow> string \<Rightarrow> bool" where
  "str_includes [] sub = startsWith [] sub"
| "str_includes (x # xs) sub = (startsWith (x # xs) sub \<or> str_includes xs sub)"

text \<open>\<^verbatim>\<open>Player.findByIdAndUpdate(playerOut, {injuryStatus, injuryNotes})\<close>; the notes are
  not a field of the schema.\<close>

definition updateInjury :: "player_id \<Rightarrow> string \<Rightarrow> db \<Rightarrow> db" where
  "updateInjury i st d =
     d\<lparr>players := map (\<lambda>p. if p_id p = i then p\<lparr>injuryStatus := st\<rparr> else p) (players d)\<rparr>"

text \<open>\<^verbatim>\<open>if (reason && reason.toLowerCase().includes('injury') && injuryStatus)\<close>: the
  update of the outgoing player, made before the match is saved.\<close>

definition injuryUpdate :: "substitute_body \<Rightarrow> db \<Rightarrow> db" where
  "injuryUpdate b d =
     (case b_reason b of
        None \<Rightarrow> d
      | Some r \<Rightarrow>
          (case b_injuryStatus b of
             None \<Rightarrow> d
           | Some st \<Rightarrow>
               if r \<noteq> [] \<and> str_includes (toLowerCase r) ''injury'' \<and> st \<noteq> []
               then updateInjury (b_playerOut b) st d else d))"

text \<open>\<^verbatim>\<open>reason || 'Tactical substitution'\<close>\<close>

definition reasonOrDefault :: "string option \<Rightarrow> string" where
  "reasonOrDefault r = (case r of None \<Rightarrow> ''Tactical substitution''
                        | Some x \<Rightarrow> if x = [] then ''Tactical substitution'' else x)"

text \<open>The handler. \<open>now\<close> is the clock reading of \<^verbatim>\<open>new Date()\<close>. The match is loaded
  without \<^verbatim>\<open>populate\<close>: the team sheet holds ids, and the ledger is read and written under
  the ids of the request. The answer carries the saved document. The advisory socket
  broadcasts after the save change neither the answer nor the store and are left out.\<close>

definition makeSubstitution :: "db \<Rightarrow> date \<Rightarrow> match_id \<Rightarrow> substitute_body \<Rightarrow> match response \<times> db" where
  "makeSubstitution d now matchId b =
     (case findMatchById d matchId of
        None \<Rightarrow> (Failure 404 ''Match not found'', d)
      | Some m \<Rightarrow>
          if status m \<noteq> Ongoing then
            (Failure 400 ''Can only make substitutions during ongoing matches'', d)
          else if findPlayerById d (b_playerIn b) = None \<or> findPlayerById d (b_playerOut b) = None then
            (Failure 404 ''One or both players not found'', d)
          else if b_playerOut b \<notin> set (teamSheet m) then
            (Failure 400 ''Player to be substituted is not currently on the field'', d)
          else if b_playerIn b \<in> set (teamSheet m) then
            (Failure 400 ''Player coming in is already on the field'', d)
          else
            let substitutionTime = (case b_time b of Some t \<Rightarrow> t | None \<Rightarrow> now);
                matchStart = createdAt m;
                minutesPlayed = minutesBetween substitutionTime matchStart;
                currentPlaytime = getPlayerPlaytime m (IdKey (b_playerOut b));
                m1 = updatePlayerPlaytime m (IdKey (b_playerOut b)) (currentPlaytime + minutesPlayed);
                m2 = updatePlayerPlaytime m1 (IdKey (b_playerIn b))
                       (getPlayerPlaytime m1 (IdKey (b_playerIn b)));
                teamSheetIndex = indexOf (teamSheet m2) (b_playerOut b);
                m3 = m2\<lparr>teamSheet := (if teamSheetIndex < 0 then teamSheet m2
                                     else (teamSheet m2)[nat teamSheetIndex := b_playerIn b])\<rparr>;
                m4 = m3\<lparr>substitutions := substitutions m3 @
                        [\<lparr>playerIn = b_playerIn b, playerOut = b_playerOut b,
                          time = substitutionTime,
                          reason = reasonOrDefault (b_reason b)\<rparr>]\<rparr>;
                d1 = injuryUpdate b d
            in if \<not> validMatch m4 then (NextError ''ValidationError'', d1)
               else (Success 200 m4, saveMatch m4 d1))"

section \<open>Starting a match (controllers/matchController.js)\<close>

definition statusString :: "match_status \<Rightarrow> string" where
  "statusString st = (case st of Scheduled \<Rightarrow> ''scheduled'' | Ongoing \<Rightarrow> ''ongoing''
                      | Completed \<Rightarrow> ''completed'' | Cancelled \<Rightarrow> ''cancelled'')"

text \<open>\<^verbatim>\<open>startExistingMatch\<close>: \<^verbatim>\<open>PUT /api/matches/:id/start\<close>.\<close>

definition startExistingMatch :: "db \<Rightarrow> match_id \<Rightarrow> match response \<times> db" where
  "startExistingMatch d matchId =
     (case findMatchById d matchId of
        None \<Rightarrow> (Failure 404 ''Match not found'', d)
      | Some m \<Rightarrow>
          if status m \<noteq> Scheduled then
            (Failure 400 (''Cannot start match with status: '' @ statusString (status m) @
                          ''. Only scheduled matches can be started.''), d)
          else
            let m1 = m\<lparr>status := Ongoing\<rparr>
            in if \<not> validMatch m1 then (NextError ''ValidationError'', d)
               else (Success 200 m1, saveMatch m1 d))"

text \<open>\<^verbatim>\<open>startMatch\<close>: \<^verbatim>\<open>POST /api/matches/start\<close>. Of the fields that \<^verbatim>\<open>matchData\<close> spreads
  into the new document the body carries the date, the type, the duration and the playtime
  map, keyed by ids; substitutions, result and performances are absent from the body. The new document
  gets an id that is not in the collection and the creation time \<open>now\<close>.\<close>

record start_body =
  sb_teamSheet :: "player_id list option"
  sb_date :: date
  sb_type :: match_type
  sb_duration :: "int option"
  sb_playtime :: "(player_id \<times> int) list"

definition newMatchId :: "db \<Rightarrow> match_id" where
  "newMatchId d = Suc (foldr max (map m_id (matches d)) 0)"

text \<open>The validator of \<^verbatim>\<open>date\<close>: at most one year after the clock reading.\<close>

definition validDate :: "date \<Rightarrow> date \<Rightarrow> bool" where
  "validDate now v \<longleftrightarrow> v \<le> now + 365 * 24 * 60 * 60 * 1000"

text \<open>\<^verbatim>\<open>Player.find({_id: {$in: teamSheet}, availability: true})\<close>\<close>

definition availableAmong :: "db \<Rightarrow> player_id list \<Rightarrow> player list" where
  "availableAmong d ts = filter (\<lambda>p. p_id p \<in> set ts \<and> availability p) (players d)"

definition startMatch :: "db \<Rightarrow> date \<Rightarrow> start_body \<Rightarrow> match response \<times> db" where
  "startMatch d now b =
     (let ts = (case sb_teamSheet b of None \<Rightarrow> [] | Some t \<Rightarrow> t)
      in if ts \<noteq> [] \<and> length (availableAmong d ts) \<noteq> length ts then
           (Failure 400 ''Some players in the team sheet are not available'', d)
         else
           let m = \<lparr>m_id = newMatchId d, date = sb_date b, mtype = sb_type b, teamSheet = ts,
                     substitutions = [],
                     playtime = map (\<lambda>entry. (IdKey (fst entry), snd entry)) (sb_playtime b),
                     status = Ongoing,
                     duration = (case sb_duration b of None \<Rightarrow> 90 | Some v \<Rightarrow> v),
                     matchResult = None, playerPerformances = [], createdAt = now\<rparr>
           in if \<not> (validDate now (date m) \<and> validMatch m) then (NextError ''ValidationError'', d)
              else
                let d1 = d\<lparr>matches := matches d @ [m]\<rparr>;
                    m1 = foldl (\<lambda>x playerId. updatePlayerPlaytime x (IdKey playerId) 0) m ts
                in if ts \<noteq> [] then (Success 201 m1, saveMatch m1 d1) else (Success 201 m, d1))"

section \<open>Playtime query (controllers/matchController.js, \<^verbatim>\<open>getPlaytimeStats\<close>)\<close>

text \<open>The body of the loop over the team sheet, which \<^verbatim>\<open>getPlaytimeStats\<close> and
  \<^verbatim>\<open>endMatch\<close> both contain. Both load the match with \<^verbatim>\<open>populate\<close>, so the element
  \<open>doc\<close> of the team sheet is a populated document and its string is a \<open>DocKey\<close>. The last substitution that brought the
  player on is the head of the substitutions whose \<^verbatim>\<open>playerIn.toString()\<close> is that string,
  sorted by descending time (the sort is stable).\<close>

definition lastSubstitution :: "match \<Rightarrow> ledger_key \<Rightarrow> substitution option" where
  "lastSubstitution m k =
     (case sort_key (\<lambda>sub. - time sub) (filter (\<lambda>sub. IdKey (playerIn sub) = k) (substitutions m)) of
        [] \<Rightarrow> None | sub # _ \<Rightarrow> Some sub)"

definition addTimePlayed :: "date \<Rightarrow> match \<Rightarrow> populated_player \<Rightarrow> match" where
  "addTimePlayed now m doc =
     (let startTime = (case lastSubstitution m (DocKey doc) of
                         Some sub \<Rightarrow> time sub | None \<Rightarrow> createdAt m);
          timePlayed = minutesBetween now startTime
      in updatePlayerPlaytime m (DocKey doc) (getPlayerPlaytime m (DocKey doc) + timePlayed))"





section \<open>Statistics materialization (\<^verbatim>\<open>createStatisticsFromMatch\<close>)\<close>

text \<open>The validators of models/Statistics.js, run by \<^verbatim>\<open>stats.save()\<close>; the enum of
  \<^verbatim>\<open>positionsPlayed\<close> lets an undefined element pass.\<close>

definition validStatistics :: "statistics \<Rightarrow> bool" where
  "validStatistics s \<longleftrightarrow>
     0 \<le> s_minutesPlayed s \<and>
     list_all (\<lambda>x. case x of None \<Rightarrow> True
                 | Some v \<Rightarrow> v \<in> set [''Goalkeeper'', ''Defender'', ''Midfielder'', ''Forward''])
              (positionsPlayed s) \<and>
     0 \<le> substitutionsCount s \<and>
     list_all (\<lambda>x. length x \<le> 200) (injuries s) \<and>
     0 \<le> s_goals s \<and> 0 \<le> s_assists s \<and> 0 \<le> s_yellowCards s \<and> 0 \<le> s_redCards s \<and>
     validRating (s_rating s)"

text \<open>\<^verbatim>\<open>Statistics.findOne({playerId, matchId})\<close>: the first record of the pair, with its
  place in the collection, which stands for the record's own id.\<close>

definition findOneStatistics :: "db \<Rightarrow> player_id \<Rightarrow> match_id \<Rightarrow> (nat \<times> statistics) option" where
  "findOneStatistics d p i =
     find (\<lambda>(k, s). s_playerId s = p \<and> s_matchId s = i) (enumerate 0 (stats d))"

text \<open>\<^verbatim>\<open>stats.save()\<close>: a record that was found is written back in its place; a new record
  is inserted, which the unique index on the pair of player and match refuses when the
  pair has a record already. The error, if any, comes with the store as it is then.\<close>

definition saveStatistics :: "nat option \<Rightarrow> statistics \<Rightarrow> db \<Rightarrow> string option \<times> db" where
  "saveStatistics place s d =
     (if \<not> validStatistics s then (Some ''ValidationError'', d)
      else case place of
             Some k \<Rightarrow> (None, d\<lparr>stats := (stats d)[k := s]\<rparr>)
           | None \<Rightarrow>
               if list_ex (\<lambda>x. s_playerId x = s_playerId s \<and> s_matchId x = s_matchId s) (stats d)
               then (Some ''DuplicateKey'', d)
               else (None, d\<lparr>stats := stats d @ [s]\<rparr>))"

text \<open>The body of the first loop, over the performances of the match.\<close>

definition statisticsOfPerformance :: "match \<Rightarrow> player_performance \<Rightarrow> db \<Rightarrow> string option \<times> db" where
  "statisticsOfPerformance m performance d =
     (let existing = findOneStatistics d (playerId performance) (m_id m);
          stats0 = (case existing of
              Some (k, s) \<Rightarrow>
                s\<lparr>s_minutesPlayed := minutesPlayed performance, s_goals := goals performance,
                  s_assists := assists performance, s_yellowCards := yellowCards performance,
                  s_redCards := redCards performance, s_rating := rating performance,
                  s_playerOfMatch := playerOfMatch performance, positionsPlayed := [None]\<rparr>
            | None \<Rightarrow>
                \<lparr>s_playerId = playerId performance, s_matchId = m_id m,
                 s_minutesPlayed = minutesPlayed performance, positionsPlayed = [],
                 substitutionsCount = 0, injuries = [],
                 s_playerOfMatch = playerOfMatch performance, s_goals = goals performance,
                 s_assists = assists performance, s_yellowCards = yellowCards performance,
                 s_redCards = redCards performance, s_rating = rating performance\<rparr>);
          stats1 = (case findPlayerById d (playerId performance) of
              Some player \<Rightarrow> stats0\<lparr>positionsPlayed := [Some (position player)]\<rparr>
            | None \<Rightarrow> stats0)
      in saveStatistics (map_option fst existing) stats1 d)"

text \<open>The body of the second loop, over the team sheet that \<^verbatim>\<open>endMatch\<close> holds:
  the element \<open>doc\<close> is a populated document. Its string is compared with the strings of
  the performances' ids, the queries and the new record take its id, and the ledger is read
  under its string.\<close>

definition statisticsOfTeamSheetPlayer :: "match \<Rightarrow> populated_player \<Rightarrow> db \<Rightarrow> string option \<times> db" where
  "statisticsOfTeamSheetPlayer m doc d =
     (case find (\<lambda>x. IdKey (playerId x) = DocKey doc) (playerPerformances m) of
        Some existingPerformance \<Rightarrow> (None, d)
      | None \<Rightarrow>
          let existing = findOneStatistics d (pp_id doc) (m_id m);
              minutes = getPlayerPlaytime m (DocKey doc)
          in case existing of
               Some (k, s) \<Rightarrow> saveStatistics (Some k) (s\<lparr>s_minutesPlayed := minutes\<rparr>) d
             | None \<Rightarrow>
                 saveStatistics None
                   \<lparr>s_playerId = pp_id doc, s_matchId = m_id m, s_minutesPlayed = minutes,
                    positionsPlayed = (case findPlayerById d (pp_id doc) of
                                         Some player \<Rightarrow> [Some (position player)]
                                       | None \<Rightarrow> [Some ''Unknown'']),
                    substitutionsCount = 0, injuries = [], s_playerOfMatch = False,
                    s_goals = 0, s_assists = 0, s_yellowCards = 0, s_redCards = 0,
                    s_rating = None\<rparr> d)"

text \<open>A \<^verbatim>\<open>for \<dots> of\<close> loop whose body may throw: the first error ends it.\<close>

fun forEachUntilError :: "('a \<Rightarrow> db \<Rightarrow> string option \<times> db) \<Rightarrow> 'a list \<Rightarrow> db \<Rightarrow> string option \<times> db" where
  "forEachUntilError body [] d = (None, d)"
| "forEachUntilError body (x # xs) d =
     (case body x d of
        (Some e, d') \<Rightarrow> (Some e, d')
      | (None, d') \<Rightarrow> forEachUntilError body xs d')"

text \<open>\<open>sheet\<close> is \<^verbatim>\<open>match.teamSheet\<close> of the document that \<^verbatim>\<open>endMatch\<close> passes on: the
  populated team sheet.\<close>

definition createStatisticsFromMatch :: "match \<Rightarrow> populated_player list \<Rightarrow> db \<Rightarrow> string option \<times> db" where
  "createStatisticsFromMatch m sheet d =
     (case forEachUntilError (statisticsOfPerformance m) (playerPerformances m) d of
        (Some e, d') \<Rightarrow> (Some e, d')
      | (None, d') \<Rightarrow> forEachUntilError (statisticsOfTeamSheetPlayer m) sheet d')"

section \<open>Ending a match (controllers/matchController.js, \<^verbatim>\<open>endMatch\<close>)\<close>

text \<open>The body of the request. \<open>None\<close> is a field that is absent; the handler's
  \<^verbatim>\<open>x || 0\<close>, \<^verbatim>\<open>x || null\<close> and \<^verbatim>\<open>x || false\<close> defaults are \<open>orZero\<close>, \<open>orNull\<close>
  and \<open>orFalse\<close>.\<close>

record result_body =
  rb_result :: "string option"
  rb_ourScore :: "int option"
  rb_opponentScore :: "int option"

record performance_body =
  pb_playerId :: "player_id option"
  pb_goals :: "int option"
  pb_assists :: "int option"
  pb_yellowCards :: "int option"
  pb_redCards :: "int option"
  pb_rating :: "int option"
  pb_playerOfMatch :: "bool option"

record end_body =
  eb_matchResult :: "result_body option"
  eb_playerPerformances :: "performance_body list option"

definition orZero :: "int option \<Rightarrow> int" where
  "orZero x = (case x of None \<Rightarrow> 0 | Some v \<Rightarrow> v)"

definition orNull :: "int option \<Rightarrow> int option" where
  "orNull x = (case x of None \<Rightarrow> None | Some v \<Rightarrow> if v = 0 then None else Some v)"

definition orFalse :: "bool option \<Rightarrow> bool" where
  "orFalse x = (case x of None \<Rightarrow> False | Some v \<Rightarrow> v)"

text \<open>The body of \<^verbatim>\<open>playerPerformances.forEach\<close>, the same text in both branches.\<close>

definition recordPerformance :: "match \<Rightarrow> performance_body \<Rightarrow> match" where
  "recordPerformance m performance =
     (case pb_playerId performance of
        None \<Rightarrow> m
      | Some p \<Rightarrow>
          updatePlayerPerformance m p
            \<lparr>playerId = p, goals = orZero (pb_goals performance),
             assists = orZero (pb_assists performance),
             yellowCards = orZero (pb_yellowCards performance),
             redCards = orZero (pb_redCards performance),
             rating = orNull (pb_rating performance),
             playerOfMatch = orFalse (pb_playerOfMatch performance),
             minutesPlayed = getPlayerPlaytime m (IdKey p)\<rparr>)"

text \<open>\<^verbatim>\<open>await match.save(); await createStatisticsFromMatch(match);\<close> and the answer, which
  carries the saved document. The save leaves the stored team sheet as it is.\<close>

definition saveAndMaterialize :: "match \<Rightarrow> populated_player list \<Rightarrow> db \<Rightarrow> match response \<times> db" where
  "saveAndMaterialize m sheet d =
     (if \<not> validMatch m then (NextError ''ValidationError'', d)
      else case createStatisticsFromMatch m sheet (saveMatch m d) of
             (Some e, d') \<Rightarrow> (NextError e, d')
           | (None, d') \<Rightarrow> (Success 200 m, d'))"

definition endMatch :: "db \<Rightarrow> date \<Rightarrow> match_id \<Rightarrow> end_body \<Rightarrow> match response \<times> db" where
  "endMatch d now matchId b =
     (case findMatchById d matchId of
        None \<Rightarrow> (Failure 404 ''Match not found'', d)
      | Some m0 \<Rightarrow>
          if status m0 \<noteq> Ongoing then (Failure 400 ''Match is not currently ongoing'', d)
          else
            let sheet = populateTeamSheet d m0;
                m1 = foldl (addTimePlayed now) m0 sheet;
                m2 = m1\<lparr>status := Completed\<rparr>
            in case mtype m2 of
                 TypeTraining \<Rightarrow>
                   (case eb_playerPerformances b of
                      None \<Rightarrow> saveAndMaterialize m2 sheet d
                    | Some ps \<Rightarrow> saveAndMaterialize (foldl recordPerformance m2 ps) sheet d)
               | TypeMatch \<Rightarrow>
                   (case eb_matchResult b of
                      None \<Rightarrow> (Failure 400 ''Match result is required when ending a match'', d)
                    | Some r \<Rightarrow>
                        if rb_result r \<notin> set [Some ''win'', Some ''loss'', Some ''draw''] then
                          (Failure 400 ''Match result must be win, loss, or draw'', d)
                        else
                          let m3 = m2\<lparr>matchResult :=
                                Some \<lparr>result = (case rb_result r of Some x \<Rightarrow> x | None \<Rightarrow> []),
                                      ourScore = orZero (rb_ourScore r),
                                      opponentScore = orZero (rb_opponentScore r)\<rparr>\<rparr>
                          in case eb_playerPerformances b of
                               None \<Rightarrow> saveAndMaterialize m3 sheet d
                             | Some ps \<Rightarrow>
                                 saveAndMaterialize
                                   (validateMatchResult (foldl recordPerformance m3 ps)) sheet d))"

section \<open>Schedules (controllers/scheduleController.js)\<close>

text \<open>The body of \<^verbatim>\<open>PUT /api/schedules/:id\<close>, which \<^verbatim>\<open>findByIdAndUpdate\<close> assigns field by
  field to the stored document: the date, the type, the status, the team sheet and the
  duration, each of them optional. The status and the type are values of their enums.\<close>

record update_body =
  ub_date :: "date option"
  ub_type :: "match_type option"
  ub_status :: "match_status option"
  ub_teamSheet :: "player_id list option"
  ub_duration :: "int option"

text \<open>middleware/validation.js, \<^verbatim>\<open>validateMatch\<close>, which the route runs before the
  handler: \<open>None\<close> lets the request through.\<close>

definition validateMatch :: "update_body \<Rightarrow> (nat \<times> string) option" where
  "validateMatch b =
     (if ub_date b = None \<or> ub_type b = None then Some (400, ''Date and type are required'')
      else None)"

definition applyUpdate :: "update_body \<Rightarrow> match \<Rightarrow> match" where
  "applyUpdate b m =
     m\<lparr>date := (case ub_date b of None \<Rightarrow> date m | Some v \<Rightarrow> v),
       mtype := (case ub_type b of None \<Rightarrow> mtype m | Some v \<Rightarrow> v),
       status := (case ub_status b of None \<Rightarrow> status m | Some v \<Rightarrow> v),
       teamSheet := (case ub_teamSheet b of None \<Rightarrow> teamSheet m | Some v \<Rightarrow> v),
       duration := (case ub_duration b of None \<Rightarrow> duration m | Some v \<Rightarrow> v)\<rparr>"

text \<open>\<^verbatim>\<open>runValidators: true\<close> checks the fields that the update sets.\<close>

definition validUpdate :: "date \<Rightarrow> update_body \<Rightarrow> bool" where
  "validUpdate now b \<longleftrightarrow>
     (case ub_date b of None \<Rightarrow> True | Some v \<Rightarrow> validDate now v) \<and>
     (case ub_duration b of None \<Rightarrow> True | Some v \<Rightarrow> 1 \<le> v \<and> v \<le> 200)"

definition updateSchedule :: "db \<Rightarrow> date \<Rightarrow> match_id \<Rightarrow> update_body \<Rightarrow> match response \<times> db" where
  "updateSchedule d now matchId b =
     (case findMatchById d matchId of
        None \<Rightarrow> (Failure 404 ''Schedule not found'', d)
      | Some schedule \<Rightarrow>
          if status schedule = Completed then (Failure 400 ''Cannot update completed matches'', d)
          else if (case ub_teamSheet b of None \<Rightarrow> False
                   | Some ts \<Rightarrow> length (availableAmong d ts) \<noteq> length ts) then
            (Failure 400 ''Some players in the team sheet are not available'', d)
          else if \<not> validUpdate now b then (NextError ''ValidationError'', d)
          else
            let updated = applyUpdate b schedule
            in (Success 200 updated, saveMatch updated d))"

text \<open>The route: \<^verbatim>\<open>validateMatch\<close>, then the handler.\<close>

definition putSchedule :: "db \<Rightarrow> date \<Rightarrow> match_id \<Rightarrow> update_body \<Rightarrow> match response \<times> db" where
  "putSchedule d now matchId b =
     (case validateMatch b of
        Some (c, msg) \<Rightarrow> (Failure c msg, d)
      | None \<Rightarrow> updateSchedule d now matchId b)"

definition cancelSchedule :: "db \<Rightarrow> match_id \<Rightarrow> string response \<times> db" where
  "cancelSchedule d matchId =
     (case findMatchById d matchId of
        None \<Rightarrow> (Failure 404 ''Schedule not found'', d)
      | Some schedule \<Rightarrow>
          if status schedule = Completed then (Failure 400 ''Cannot cancel completed matches'', d)
          else if status schedule = Ongoing then
            (Failure 400 ''Cannot cancel ongoing matches. End the match first.'', d)
          else (Success 200 ''Schedule cancelled successfully'',
                saveMatch (schedule\<lparr>status := Cancelled\<rparr>) d))"

subsection \<open>Team generation\<close>

text \<open>\<^verbatim>\<open>formation.split('-')\<close> and \<^verbatim>\<open>parseInt\<close> on each piece: leading blanks, a sign,
  then the longest run of decimal digits; \<open>None\<close> is \<^verbatim>\<open>NaN\<close>. Hexadecimal prefixes
  are not modelled.\<close>

fun split :: "char \<Rightarrow> string \<Rightarrow> string list" where
  "split sep [] = [] # []"
| "split sep (c # cs) =
     (if c = sep then [] # split sep cs
      else (case split sep cs of [] \<Rightarrow> [c] # [] | piece # pieces \<Rightarrow> (c # piece) # pieces))"

definition isDigit :: "char \<Rightarrow> bool" where
  "isDigit c \<longleftrightarrow> (48::nat) \<le> of_char c \<and> of_char c \<le> (57::nat)"

definition isBlank :: "char \<Rightarrow> bool" where
  "isBlank c \<longleftrightarrow> (of_char c :: nat) \<in> set [9, 10, 11, 12, 13, 32]"

definition digitsValue :: "string \<Rightarrow> int" where
  "digitsValue ds = foldl (\<lambda>acc c. 10 * acc + (int (of_char c) - 48)) 0 ds"

definition parseInt :: "string \<Rightarrow> int option" where
  "parseInt s =
     (let s1 = dropWhile isBlank s;
          negative = (case s1 of [] \<Rightarrow> False | c # _ \<Rightarrow> c = CHR ''-'');
          s2 = (case s1 of [] \<Rightarrow> [] | c # cs \<Rightarrow> if c = CHR ''-'' \<or> c = CHR ''+'' then cs else s1);
          ds = takeWhile isDigit s2
      in if ds = [] then None
         else Some (if negative then - digitsValue ds else digitsValue ds))"

text \<open>Reading an element of an array that may be too short, and arithmetic and comparison
  on numbers that may be \<^verbatim>\<open>NaN\<close> (or \<^verbatim>\<open>undefined\<close>): a sum with \<^verbatim>\<open>NaN\<close> is
  \<^verbatim>\<open>NaN\<close>, a comparison with \<^verbatim>\<open>NaN\<close> is false.\<close>

definition nthOrUndefined :: "int option list \<Rightarrow> nat \<Rightarrow> int option" where
  "nthOrUndefined xs n = (if n < length xs then xs ! n else None)"

definition plusNaN :: "int option \<Rightarrow> int option \<Rightarrow> int option" where
  "plusNaN a b = (case a of None \<Rightarrow> None | Some x \<Rightarrow> (case b of None \<Rightarrow> None | Some y \<Rightarrow> Some (x + y)))"

text \<open>\<^verbatim>\<open>for (let i = 0; i < needed && i < available.length; i++) selectedTeam.push(available[i])\<close>\<close>

definition takeNeeded :: "int option \<Rightarrow> 'a list \<Rightarrow> 'a list" where
  "takeNeeded needed available = (case needed of None \<Rightarrow> [] | Some n \<Rightarrow> take (nat n) available)"

text \<open>The recent minutes of a player: \<^verbatim>\<open>playerPlaytime[a._id]\<close>. The handler gives every
  available player an entry, so the lookup finds one; a missing entry reads as \<open>0\<close>.\<close>

definition recentMinutes :: "(player_id \<rightharpoonup> int) \<Rightarrow> player \<Rightarrow> int" where
  "recentMinutes playerPlaytime a = (case playerPlaytime (p_id a) of None \<Rightarrow> 0 | Some v \<Rightarrow> v)"

text \<open>The comparator of a position's bucket, as the key of a stable sort.\<close>

definition selectionScore :: "(player_id \<rightharpoonup> int) \<Rightarrow> bool \<Rightarrow> string \<Rightarrow> player \<Rightarrow> int" where
  "selectionScore playerPlaytime prioritizeRest pos a =
     (if prioritizeRest then recentMinutes playerPlaytime a
      else recentMinutes playerPlaytime a + (if position a = pos then 0 else 1) * 10)"

definition bucket :: "player list \<Rightarrow> string \<Rightarrow> player list" where
  "bucket availablePlayers pos =
     (if pos = ''Goalkeeper'' then filter (\<lambda>p. position p = ''Goalkeeper'') availablePlayers
      else filter (\<lambda>p. position p = pos \<or> pos \<in> set (preferredPositions p)) availablePlayers)"

text \<open>\<^verbatim>\<open>while (selectedTeam.length < totalNeeded && remainingPlayers.length > 0)
  selectedTeam.push(remainingPlayers.shift())\<close>\<close>

fun fillRemaining :: "int \<Rightarrow> player list \<Rightarrow> player list \<Rightarrow> player list" where
  "fillRemaining totalNeeded selectedTeam [] = selectedTeam"
| "fillRemaining totalNeeded selectedTeam (p # remainingPlayers) =
     (if int (length selectedTeam) < totalNeeded
      then fillRemaining totalNeeded (selectedTeam @ [p]) remainingPlayers
      else selectedTeam)"

definition generateOptimalTeam :: "player list \<Rightarrow> (player_id \<rightharpoonup> int) \<Rightarrow> string \<Rightarrow> bool \<Rightarrow> player list" where
  "generateOptimalTeam availablePlayers playerPlaytime formation prioritizeRest =
     (let formationArray = map parseInt (split (CHR ''-'') formation);
          defenders = nthOrUndefined formationArray 0;
          midfielders = nthOrUndefined formationArray 1;
          forwards = nthOrUndefined formationArray 2;
          goalkeepers = Some 1;
          sortedBucket = (\<lambda>pos. sort_key (selectionScore playerPlaytime prioritizeRest pos)
                                   (bucket availablePlayers pos));
          selectedTeam = takeNeeded goalkeepers (sortedBucket ''Goalkeeper'') @
                         takeNeeded defenders (sortedBucket ''Defender'') @
                         takeNeeded midfielders (sortedBucket ''Midfielder'') @
                         takeNeeded forwards (sortedBucket ''Forward'');
          totalNeeded = plusNaN (plusNaN (plusNaN goalkeepers defenders) midfielders) forwards;
          filled = (case totalNeeded of
              None \<Rightarrow> selectedTeam
            | Some n \<Rightarrow>
                if int (length selectedTeam) < n then
                  fillRemaining n selectedTeam
                    (sort_key (recentMinutes playerPlaytime)
                       (filter (\<lambda>p. p \<notin> set selectedTeam) availablePlayers))
                else selectedTeam)
      in take 11 filled)"

text \<open>\<^verbatim>\<open>generateTeamSheet\<close>: \<^verbatim>\<open>POST /api/schedules/:id/generate-team\<close>.\<close>

definition eligiblePlayers :: "db \<Rightarrow> player list" where
  "eligiblePlayers d =
     filter (\<lambda>p. availability p \<and> injuryStatus p \<in> set [''Healthy'', ''Minor Injury'']) (players d)"

definition recentMatches :: "db \<Rightarrow> date \<Rightarrow> match \<Rightarrow> match list" where
  "recentMatches d now m =
     filter (\<lambda>x. now - 30 * 24 * 60 * 60 * 1000 \<le> date x \<and> date x < date m \<and> status x = Completed)
            (matches d)"

text \<open>\<^verbatim>\<open>if (playerPlaytime[playerId] !== undefined) playerPlaytime[playerId] += minutes\<close>:
  the object is keyed by the ids of the available players, so a key of a ledger that is the
  printed form of a document finds nothing.\<close>

definition addRecentMinutes :: "(player_id \<rightharpoonup> int) \<Rightarrow> ledger_key \<times> int \<Rightarrow> (player_id \<rightharpoonup> int)" where
  "addRecentMinutes playerPlaytime entry =
     (case fst entry of
        DocKey doc \<Rightarrow> playerPlaytime
      | IdKey i \<Rightarrow>
          (case playerPlaytime i of
             None \<Rightarrow> playerPlaytime
           | Some v \<Rightarrow> playerPlaytime(i \<mapsto> v + snd entry)))"

definition recentPlaytime :: "player list \<Rightarrow> match list \<Rightarrow> (player_id \<rightharpoonup> int)" where
  "recentPlaytime availablePlayers recent =
     foldl (\<lambda>playerPlaytime recentMatch. foldl addRecentMinutes playerPlaytime (playtime recentMatch))
           (foldl (\<lambda>playerPlaytime player. playerPlaytime(p_id player \<mapsto> 0)) Map.empty availablePlayers)
           recent"

definition generateTeamSheet ::
  "db \<Rightarrow> date \<Rightarrow> match_id \<Rightarrow> string option \<Rightarrow> bool \<Rightarrow> (match \<times> player list) response \<times> db" where
  "generateTeamSheet d now matchId formationPreference prioritizeRest =
     (case findMatchById d matchId of
        None \<Rightarrow> (Failure 404 ''Schedule not found'', d)
      | Some m \<Rightarrow>
          if status m \<noteq> Scheduled then
            (Failure 400 ''Can only generate team sheet for scheduled matches'', d)
          else
            let availablePlayers = eligiblePlayers d
            in if length availablePlayers < 11 then
                 (Failure 400 ''Not enough available players for a full team'', d)
               else
                 let playerPlaytime = recentPlaytime availablePlayers (recentMatches d now m);
                     formation = (case formationPreference of
                                    None \<Rightarrow> ''4-4-2''
                                  | Some f \<Rightarrow> if f = [] then ''4-4-2'' else f);
                     team = generateOptimalTeam availablePlayers playerPlaytime formation prioritizeRest;
                     m1 = m\<lparr>teamSheet := map p_id team\<rparr>
                 in if \<not> validMatch m1 then (NextError ''ValidationError'', d)
                    else (Success 200 (m1, team), saveMatch m1 d))"

section \<open>Vocabulary of the properties\<close>

text \<open>The data of a successful answer.\<close>

definition responseData :: "'a response \<Rightarrow> 'a option" where
  "responseData r = (case r of Success c x \<Rightarrow> Some x | Failure c msg \<Rightarrow> None | NextError e \<Rightarrow> None)"

text \<open>The number of statistics records of a player for a match.\<close>

definition recordsOf :: "db \<Rightarrow> player_id \<Rightarrow> match_id \<Rightarrow> nat" where
  "recordsOf d p i = length (filter (\<lambda>s. s_playerId s = p \<and> s_matchId s = i) (stats d))"

definition countGoalkeepers :: "player list \<Rightarrow> nat" where
  "countGoalkeepers team = length (filter (\<lambda>p. position p = ''Goalkeeper'') team)"

section \<open>Scenarios\<close>

text \<open>A training session in progress with five players on the field and a sixth on the
  bench, and the substitution of player 3 by player 6 after thirty minutes.\<close>

definition sub_player :: "player_id \<Rightarrow> player" where
  "sub_player i = \<lparr>p_id = i, name = ''Player'', jerseyNumber = int i, position = ''Midfielder'',
     injuryStatus = ''Healthy'', preferredPositions = [''Midfielder''], availability = True\<rparr>"

definition sub_match :: match where
  "sub_match = \<lparr>m_id = 7, date = 0, mtype = TypeTraining, teamSheet = [1, 2, 3, 4, 5],
     substitutions = [], playtime = [], status = Ongoing, duration = 90, matchResult = None,
     playerPerformances = [], createdAt = 0\<rparr>"

definition sub_db :: db where
  "sub_db = \<lparr>players = map sub_player [1, 2, 3, 4, 5, 6], matches = [sub_match], stats = []\<rparr>"

definition sub_body :: substitute_body where
  "sub_body = \<lparr>b_playerIn = 6, b_playerOut = 3, b_time = Some (30 * 60000),
     b_reason = Some ''Tactical'', b_injuryStatus = None\<rparr>"

definition sub_match_after :: match where
  "sub_match_after = sub_match\<lparr>teamSheet := [1, 2, 6, 4, 5],
     substitutions := [\<lparr>playerIn = 6, playerOut = 3, time = 30 * 60000, reason = ''Tactical''\<rparr>],
     playtime := [(IdKey 3, 30), (IdKey 6, 0)]\<rparr>"

definition sub_match_default :: match where
  "sub_match_default = sub_match_after\<lparr>substitutions :=
     [\<lparr>playerIn = 6, playerOut = 3, time = 30 * 60000, reason = ''Tactical substitution''\<rparr>]\<rparr>"

definition sub_match_done :: match where
  "sub_match_done = sub_match\<lparr>status := Completed\<rparr>"

definition sub_db_done :: db where
  "sub_db_done = sub_db\<lparr>matches := [sub_match_done]\<rparr>"




text \<open>The substitution of player 3 after an injury, with a reason of 206 characters.\<close>

definition injury_body :: substitute_body where
  "injury_body = \<lparr>b_playerIn = 6, b_playerOut = 3, b_time = Some (30 * 60000),
     b_reason = Some (''injury'' @ replicate 200 (CHR ''x'')),
     b_injuryStatus = Some ''Major Injury''\<rparr>"

definition sub_db_injured :: db where
  "sub_db_injured = sub_db\<lparr>players :=
     [sub_player 1, sub_player 2, (sub_player 3)\<lparr>injuryStatus := ''Major Injury''\<rparr>,
      sub_player 4, sub_player 5, sub_player 6]\<rparr>"

text \<open>A scheduled fixture and two squads of healthy, available players: one with two
  goalkeepers and nine defenders, one with a goalkeeper, four defenders, four midfielders
  and three forwards.\<close>

definition squad_player :: "player_id \<Rightarrow> string \<Rightarrow> player" where
  "squad_player i pos = \<lparr>p_id = i, name = ''Player'', jerseyNumber = int i, position = pos,
     injuryStatus = ''Healthy'', preferredPositions = [pos], availability = True\<rparr>"

definition fixture :: match where
  "fixture = \<lparr>m_id = 1, date = 1000, mtype = TypeMatch, teamSheet = [], substitutions = [],
     playtime = [], status = Scheduled, duration = 90, matchResult = None,
     playerPerformances = [], createdAt = 0\<rparr>"

definition thin_squad :: "player list" where
  "thin_squad = map (\<lambda>i. squad_player i ''Goalkeeper'') [1, 2] @
                map (\<lambda>i. squad_player i ''Defender'') [3, 4, 5, 6, 7, 8, 9, 10, 11]"

definition thin_db :: db where
  "thin_db = \<lparr>players = thin_squad, matches = [fixture], stats = []\<rparr>"

definition thin_team :: "player list" where
  "thin_team = map (\<lambda>i. squad_player i (if i \<le> 2 then ''Goalkeeper'' else ''Defender''))
                   [1, 3, 4, 5, 6, 2, 7, 8, 9, 10, 11]"

definition full_squad :: "player list" where
  "full_squad = [squad_player 1 ''Goalkeeper''] @
                map (\<lambda>i. squad_player i ''Defender'') [2, 3, 4, 5] @
                map (\<lambda>i. squad_player i ''Midfielder'') [6, 7, 8, 9] @
                map (\<lambda>i. squad_player i ''Forward'') [10, 11, 12]"

definition full_db :: db where
  "full_db = \<lparr>players = full_squad, matches = [fixture], stats = []\<rparr>"

definition full_team :: "player list" where
  "full_team = take 11 full_squad"

text \<open>A cup match in progress with two players on the field, whose ledger was set to 0
  under their ids when the match started, and the match as it is stored when it is ended
  after ninety minutes with the result \<^verbatim>\<open>win\<close>, a submitted score of ten and no
  performances: the minutes are filed under the printed forms of the two documents.\<close>

definition cup_match :: match where
  "cup_match = \<lparr>m_id = 1, date = 0, mtype = TypeMatch, teamSheet = [1, 2], substitutions = [],
     playtime = [(IdKey 1, 0), (IdKey 2, 0)], status = Ongoing, duration = 90, matchResult = None,
     playerPerformances = [], createdAt = 0\<rparr>"

definition cup_db :: db where
  "cup_db = \<lparr>players = map sub_player [1, 2, 3], matches = [cup_match], stats = []\<rparr>"

definition scored :: "player_id \<Rightarrow> int \<Rightarrow> performance_body" where
  "scored p g = \<lparr>pb_playerId = Some p, pb_goals = Some g, pb_assists = None,
     pb_yellowCards = None, pb_redCards = None, pb_rating = None, pb_playerOfMatch = None\<rparr>"

definition cup_body :: end_body where
  "cup_body = \<lparr>eb_matchResult = Some \<lparr>rb_result = Some ''win'', rb_ourScore = Some 10,
                                       rb_opponentScore = Some 1\<rparr>,
               eb_playerPerformances = Some [scored 1 2, scored 2 1]\<rparr>"

definition cup_statistics :: "player_id \<Rightarrow> int \<Rightarrow> statistics" where
  "cup_statistics p g = \<lparr>s_playerId = p, s_matchId = 1, s_minutesPlayed = 90,
     positionsPlayed = [Some ''Midfielder''], substitutionsCount = 0, injuries = [],
     s_playerOfMatch = False, s_goals = g, s_assists = 0, s_yellowCards = 0, s_redCards = 0,
     s_rating = None\<rparr>"

definition cup_unscored :: match where
  "cup_unscored = cup_match\<lparr>
     playtime := [(IdKey 1, 0), (IdKey 2, 0),
                  (DocKey (populated (sub_player 1)), 90), (DocKey (populated (sub_player 2)), 90)],
     status := Completed,
     matchResult := Some \<lparr>result = ''win'', ourScore = 10, opponentScore = 1\<rparr>\<rparr>"

definition cancel_body :: update_body where
  "cancel_body = \<lparr>ub_date = Some 1000, ub_type = Some TypeMatch, ub_status = Some Cancelled,
     ub_teamSheet = None, ub_duration = None\<rparr>"

definition cup_cancelled :: match where
  "cup_cancelled = cup_match\<lparr>date := 1000, status := Cancelled\<rparr>"

text \<open>The cup match with player 9 on the team sheet in place of player 2, after the Player
  document of player 9 has been deleted, and the match as it is stored when it is ended with
  two goals of player 1.\<close>

definition orphan_match :: match where
  "orphan_match = cup_match\<lparr>teamSheet := [1, 9], playtime := [(IdKey 1, 0), (IdKey 9, 0)]\<rparr>"

definition orphan_db :: db where
  "orphan_db = cup_db\<lparr>matches := [orphan_match]\<rparr>"

definition orphan_body :: end_body where
  "orphan_body = cup_body\<lparr>eb_playerPerformances := Some [scored 1 2]\<rparr>"

definition orphan_final :: match where
  "orphan_final = orphan_match\<lparr>
     playtime := [(IdKey 1, 0), (IdKey 9, 0), (DocKey (populated (sub_player 1)), 90)],
     status := Completed,
     matchResult := Some \<lparr>result = ''win'', ourScore = 2, opponentScore = 1\<rparr>,
     playerPerformances := [\<lparr>playerId = 1, goals = 2, assists = 0, yellowCards = 0, redCards = 0,
                              rating = None, playerOfMatch = False, minutesPlayed = 0\<rparr>]\<rparr>"

definition orphan_after :: db where
  "orphan_after = orphan_db\<lparr>matches := [orphan_final], stats := [cup_statistics 1 2]\<rparr>"

text \<open>A scheduled match with a team sheet of two and an empty ledger, and the body that
  starts a new match with the same team sheet.\<close>

definition planned :: match where
  "planned = \<lparr>m_id = 1, date = 1000, mtype = TypeMatch, teamSheet = [1, 2], substitutions = [],
     playtime = [], status = Scheduled, duration = 90, matchResult = None,
     playerPerformances = [], createdAt = 0\<rparr>"

definition planned_db :: db where
  "planned_db = \<lparr>players = map sub_player [1, 2, 3], matches = [planned], stats = []\<rparr>"

definition kickoff_body :: start_body where
  "kickoff_body = \<lparr>sb_teamSheet = Some [1, 2], sb_date = 1000, sb_type = TypeMatch,
     sb_duration = None, sb_playtime = []\<rparr>"

section \<open>Substitution: ledger, rejections, team sheet\<close>

subsection \<open>Auxiliary facts\<close>

lemma indexOf_absent: "x \<notin> set xs \<Longrightarrow> indexOf xs x = -1"
  by (induction xs) (auto simp: Let_def)

lemma indexOf_present:
  "x \<in> set xs \<Longrightarrow> 0 \<le> indexOf xs x \<and> nat (indexOf xs x) < length xs \<and>
     xs ! nat (indexOf xs x) = x \<and> (\<forall>j < nat (indexOf xs x). xs ! j \<noteq> x)"
proof (induction xs)
  case Nil
  then show ?case by simp
next
  case (Cons y ys)
  show ?case
  proof (cases "y = x")
    case True
    then show ?thesis by simp
  next
    case False
    with Cons.prems have mem: "x \<in> set ys" by simp
    from Cons.IH [OF mem] have ih: "0 \<le> indexOf ys x" "nat (indexOf ys x) < length ys"
      "ys ! nat (indexOf ys x) = x" "\<forall>j < nat (indexOf ys x). ys ! j \<noteq> x" by auto
    have idx: "indexOf (y # ys) x = indexOf ys x + 1" using False ih(1) by (simp add: Let_def)
    have n: "nat (indexOf ys x + 1) = Suc (nat (indexOf ys x))" using ih(1) by simp
    have "\<forall>j < Suc (nat (indexOf ys x)). (y # ys) ! j \<noteq> x"
      using False ih(4) by (auto simp: nth_Cons split: nat.splits)
    then show ?thesis using ih idx n by simp
  qed
qed

lemma find_saveMatch:
  "find (\<lambda>x. m_id x = m_id m) (map (\<lambda>x. if m_id x = m_id m then m else x) xs)
     = (case find (\<lambda>x. m_id x = m_id m) xs of None \<Rightarrow> None | Some _ \<Rightarrow> Some m)"
  by (induction xs) auto

lemma findMatchById_id: "findMatchById d i = Some m \<Longrightarrow> m_id m = i"
  by (auto simp: findMatchById_def find_Some_iff)

lemma matches_injuryUpdate: "matches (injuryUpdate b d) = matches d"
  by (simp add: injuryUpdate_def updateInjury_def split: option.splits)

lemma findMatchById_saveMatch:
  assumes "findMatchById d i = Some m" and "m_id m' = i" and "matches d1 = matches d"
  shows "findMatchById (saveMatch m' d1) i = Some m'"
proof -
  have "find (\<lambda>x. m_id x = m_id m') (matches d) = Some m"
    using assms(1,2) by (simp add: findMatchById_def)
  then have "find (\<lambda>x. m_id x = m_id m') (map (\<lambda>x. if m_id x = m_id m' then m' else x) (matches d)) = Some m'"
    by (simp add: find_saveMatch)
  then show ?thesis
    using assms(2,3) by (simp add: findMatchById_def saveMatch_def)
qed

lemma doubleSpacing_small: "a < 9007199254740992 \<Longrightarrow> doubleSpacing a = 1"
  by simp


lemma makeSubstitution_success:
  assumes "makeSubstitution d now i b = (Success c m', d')"
  shows "\<exists>m. findMatchById d i = Some m \<and> status m = Ongoing \<and>
           b_playerOut b \<in> set (teamSheet m) \<and> b_playerIn b \<notin> set (teamSheet m) \<and>
           findPlayerById d (b_playerIn b) \<noteq> None \<and> findPlayerById d (b_playerOut b) \<noteq> None \<and>
           c = 200 \<and> validMatch m' \<and> d' = saveMatch m' (injuryUpdate b d) \<and>
           m' = m\<lparr>playtime := AList.update (IdKey (b_playerIn b))
                    (case map_of (playtime m) (IdKey (b_playerIn b)) of None \<Rightarrow> 0 | Some v \<Rightarrow> v)
                    (AList.update (IdKey (b_playerOut b))
                       ((case map_of (playtime m) (IdKey (b_playerOut b)) of None \<Rightarrow> 0 | Some v \<Rightarrow> v) +
                          minutesBetween (case b_time b of Some t \<Rightarrow> t | None \<Rightarrow> now) (createdAt m))
                       (playtime m)),
                 teamSheet := (teamSheet m)[nat (indexOf (teamSheet m) (b_playerOut b)) := b_playerIn b],
                 substitutions := substitutions m @
                    [\<lparr>playerIn = b_playerIn b, playerOut = b_playerOut b,
                      time = (case b_time b of Some t \<Rightarrow> t | None \<Rightarrow> now),
                      reason = reasonOrDefault (b_reason b)\<rparr>]\<rparr>"
proof (cases "findMatchById d i")
  case None
  with assms show ?thesis by (simp add: makeSubstitution_def)
next
  case (Some m)
  from assms Some have guards: "status m = Ongoing" "findPlayerById d (b_playerIn b) \<noteq> None"
    "findPlayerById d (b_playerOut b) \<noteq> None" "b_playerOut b \<in> set (teamSheet m)"
    "b_playerIn b \<notin> set (teamSheet m)"
    by (auto simp: makeSubstitution_def split: if_splits)
  have ne: "b_playerIn b \<noteq> b_playerOut b" using guards by auto
  have idx: "\<not> indexOf (teamSheet m) (b_playerOut b) < 0"
    using indexOf_present [OF guards(4)] by simp
  have pt: "getPlayerPlaytime (m\<lparr>playtime := AList.update (IdKey (b_playerOut b)) v (playtime m)\<rparr>)
        (IdKey (b_playerIn b))
      = (case map_of (playtime m) (IdKey (b_playerIn b)) of None \<Rightarrow> 0 | Some v \<Rightarrow> v)" for v
    using ne by (simp add: getPlayerPlaytime_def update_conv')
  have cur: "getPlayerPlaytime m (IdKey (b_playerOut b))
      = (case map_of (playtime m) (IdKey (b_playerOut b)) of None \<Rightarrow> 0 | Some v \<Rightarrow> v)"
    by (simp add: getPlayerPlaytime_def)
  from assms Some guards idx show ?thesis
    by (auto simp: makeSubstitution_def Let_def pt cur updatePlayerPlaytime_def split: if_splits)
qed

subsection \<open>The ledger after a substitution\<close>



subsection \<open>Rejected substitutions\<close>

text \<open>
  Claim C4, amended. The handler checks in this order, and the first check that fails
  decides the answer: a match that does not exist is answered 404 (not found); a match that
  is not ongoing is answered 400 with the message about ongoing matches (invalid state); a
  missing incoming or outgoing player is answered 404 (not found); an outgoing player who
  is not on the team sheet, and then an incoming player who already is, are answered 400
  (validation failure). In each of these rejections, and whenever the handler itself answers
  a failure, the store is the one the request found.
\<close>

theorem substitution_rejected:
  "(findMatchById d i = None \<longrightarrow>
      makeSubstitution d now i b = (Failure 404 ''Match not found'', d)) \<and>
   (\<forall>m. findMatchById d i = Some m \<longrightarrow>
      (status m \<noteq> Ongoing \<longrightarrow>
         makeSubstitution d now i b =
           (Failure 400 ''Can only make substitutions during ongoing matches'', d)) \<and>
      (status m = Ongoing \<and>
       (findPlayerById d (b_playerIn b) = None \<or> findPlayerById d (b_playerOut b) = None) \<longrightarrow>
         makeSubstitution d now i b = (Failure 404 ''One or both players not found'', d)) \<and>
      (status m = Ongoing \<and> findPlayerById d (b_playerIn b) \<noteq> None \<and>
       findPlayerById d (b_playerOut b) \<noteq> None \<and> b_playerOut b \<notin> set (teamSheet m) \<longrightarrow>
         makeSubstitution d now i b =
           (Failure 400 ''Player to be substituted is not currently on the field'', d)) \<and>
      (status m = Ongoing \<and> findPlayerById d (b_playerIn b) \<noteq> None \<and>
       findPlayerById d (b_playerOut b) \<noteq> None \<and> b_playerOut b \<in> set (teamSheet m) \<and>
       b_playerIn b \<in> set (teamSheet m) \<longrightarrow>
         makeSubstitution d now i b =
           (Failure 400 ''Player coming in is already on the field'', d))) \<and>
   (\<forall>c msg d'. makeSubstitution d now i b = (Failure c msg, d') \<longrightarrow> d' = d)"
proof (intro conjI allI impI)
  fix c msg d'
  assume "makeSubstitution d now i b = (Failure c msg, d')"
  then show "d' = d"
    by (auto simp: makeSubstitution_def Let_def split: option.splits if_splits)
qed (simp_all add: makeSubstitution_def)

text \<open>One request for each of the five rejections.\<close>

theorem substitution_rejected_witness:
  "makeSubstitution sub_db 0 8 sub_body = (Failure 404 ''Match not found'', sub_db) \<and>
   makeSubstitution sub_db_done 0 7 sub_body =
     (Failure 400 ''Can only make substitutions during ongoing matches'', sub_db_done) \<and>
   makeSubstitution sub_db 0 7 (sub_body\<lparr>b_playerIn := 9\<rparr>) =
     (Failure 404 ''One or both players not found'', sub_db) \<and>
   makeSubstitution sub_db 0 7 (sub_body\<lparr>b_playerIn := 3, b_playerOut := 6\<rparr>) =
     (Failure 400 ''Player to be substituted is not currently on the field'', sub_db) \<and>
   makeSubstitution sub_db 0 7 (sub_body\<lparr>b_playerIn := 1\<rparr>) =
     (Failure 400 ''Player coming in is already on the field'', sub_db)"
  using substitution_rejected [of sub_db 8 0 sub_body]
    substitution_rejected [of sub_db_done 7 0 sub_body]
    substitution_rejected [of sub_db 7 0 "sub_body\<lparr>b_playerIn := 9\<rparr>"]
    substitution_rejected [of sub_db 7 0 "sub_body\<lparr>b_playerIn := 3, b_playerOut := 6\<rparr>"]
    substitution_rejected [of sub_db 7 0 "sub_body\<lparr>b_playerIn := 1\<rparr>"]
  by (simp add: findMatchById_def findPlayerById_def sub_db_def sub_db_done_def sub_match_done_def
      sub_match_def sub_body_def sub_player_def)

text \<open>
  Claim C4 as stated, with no state changed in every failure case, fails. A substitution
  for an injury whose reason has 206 characters passes the five checks; the handler writes
  the injury status of the outgoing player to the Player document and then saves the match,
  and the save throws a validation error on the length of the reason. The substitution has
  failed, the match is stored as before, and player 3 is stored with a major injury.
\<close>

theorem substitution_rejected_counterexample:
  "makeSubstitution sub_db 0 7 injury_body = (NextError ''ValidationError'', sub_db_injured) \<and>
   map_option injuryStatus (findPlayerById sub_db 3) = Some ''Healthy'' \<and>
   map_option injuryStatus (findPlayerById sub_db_injured 3) = Some ''Major Injury'' \<and>
   findMatchById sub_db_injured 7 = Some sub_match"
  by code_simp

subsection \<open>The team sheet and the log after a substitution\<close>

text \<open>
  Claim C5. When a substitution succeeds, the team sheet keeps its length; the incoming
  player stands at the first index \<open>k\<close> at which the outgoing player stood; every other
  slot is unchanged; and the log of substitutions is the previous log followed by the one
  record of the incoming player, the outgoing player, the instant of the substitution and
  the reason, which is \<^verbatim>\<open>Tactical substitution\<close> when the request gives none.
\<close>

theorem substitution_team_sheet:
  assumes "makeSubstitution d now i b = (Success c m', d')"
  shows "\<exists>m k. findMatchById d i = Some m \<and> findMatchById d' i = Some m' \<and>
     k < length (teamSheet m) \<and> teamSheet m ! k = b_playerOut b \<and>
     (\<forall>j<k. teamSheet m ! j \<noteq> b_playerOut b) \<and>
     length (teamSheet m') = length (teamSheet m) \<and>
     teamSheet m' ! k = b_playerIn b \<and>
     (\<forall>j<length (teamSheet m). j \<noteq> k \<longrightarrow> teamSheet m' ! j = teamSheet m ! j) \<and>
     substitutions m' = substitutions m @
       [\<lparr>playerIn = b_playerIn b, playerOut = b_playerOut b,
         time = (case b_time b of Some t \<Rightarrow> t | None \<Rightarrow> now),
         reason = (case b_reason b of None \<Rightarrow> ''Tactical substitution''
                   | Some r \<Rightarrow> if r = [] then ''Tactical substitution'' else r)\<rparr>]"
proof -
  from makeSubstitution_success [OF assms] obtain m where
    m: "findMatchById d i = Some m" and mem: "b_playerOut b \<in> set (teamSheet m)"
    and d': "d' = saveMatch m' (injuryUpdate b d)"
    and m': "m' = m\<lparr>playtime := AList.update (IdKey (b_playerIn b))
                    (case map_of (playtime m) (IdKey (b_playerIn b)) of None \<Rightarrow> 0 | Some v \<Rightarrow> v)
                    (AList.update (IdKey (b_playerOut b))
                       ((case map_of (playtime m) (IdKey (b_playerOut b)) of None \<Rightarrow> 0 | Some v \<Rightarrow> v) +
                          minutesBetween (case b_time b of Some t \<Rightarrow> t | None \<Rightarrow> now) (createdAt m))
                       (playtime m)),
                 teamSheet := (teamSheet m)[nat (indexOf (teamSheet m) (b_playerOut b)) := b_playerIn b],
                 substitutions := substitutions m @
                    [\<lparr>playerIn = b_playerIn b, playerOut = b_playerOut b,
                      time = (case b_time b of Some t \<Rightarrow> t | None \<Rightarrow> now),
                      reason = reasonOrDefault (b_reason b)\<rparr>]\<rparr>"
    by blast
  define k where "k = nat (indexOf (teamSheet m) (b_playerOut b))"
  have k: "k < length (teamSheet m)" "teamSheet m ! k = b_playerOut b"
    "\<forall>j<k. teamSheet m ! j \<noteq> b_playerOut b"
    using indexOf_present [OF mem] by (simp_all add: k_def)
  have id: "m_id m' = i" using findMatchById_id [OF m] m' by simp
  have stored: "findMatchById d' i = Some m'"
    unfolding d' by (rule findMatchById_saveMatch [OF m id matches_injuryUpdate])
  have sheet: "teamSheet m' = (teamSheet m)[k := b_playerIn b]"
    by (simp add: m' k_def)
  have subs: "substitutions m' = substitutions m @
       [\<lparr>playerIn = b_playerIn b, playerOut = b_playerOut b,
         time = (case b_time b of Some t \<Rightarrow> t | None \<Rightarrow> now),
         reason = (case b_reason b of None \<Rightarrow> ''Tactical substitution''
                   | Some r \<Rightarrow> if r = [] then ''Tactical substitution'' else r)\<rparr>]"
    by (simp add: m' reasonOrDefault_def)
  show ?thesis
    using m stored k subs by (intro exI [of _ m] exI [of _ k]) (simp add: sheet)
qed

text \<open>The substitution of the example, requested without a reason.\<close>

theorem substitution_team_sheet_witness:
  "makeSubstitution sub_db 0 7 (sub_body\<lparr>b_reason := None\<rparr>) =
     (Success 200 sub_match_default, sub_db\<lparr>matches := [sub_match_default]\<rparr>) \<and>
   teamSheet sub_match = [1, 2, 3, 4, 5] \<and> teamSheet sub_match_default = [1, 2, 6, 4, 5] \<and>
   substitutions sub_match_default =
     [\<lparr>playerIn = 6, playerOut = 3, time = 30 * 60000, reason = ''Tactical substitution''\<rparr>]"
proof -
  have run: "makeSubstitution sub_db 0 7 (sub_body\<lparr>b_reason := None\<rparr>) =
      (Success 200 sub_match_default, sub_db\<lparr>matches := [sub_match_default]\<rparr>)"
    by code_simp
  from substitution_team_sheet [OF run] run show ?thesis
    by (simp add: sub_match_def sub_match_after_def sub_match_default_def)
qed

section \<open>The playtime query\<close>

lemma foldl_addTimePlayed: "\<exists>pt. foldl (addTimePlayed now) m ps = m\<lparr>playtime := pt\<rparr>"
proof (induction ps arbitrary: m)
  case Nil
  show ?case by (intro exI [of _ "playtime m"]) simp
next
  case (Cons p ps)
  obtain pt1 where one: "addTimePlayed now m p = m\<lparr>playtime := pt1\<rparr>"
    by (simp add: addTimePlayed_def updatePlayerPlaytime_def Let_def)
  from Cons.IH [of "m\<lparr>playtime := pt1\<rparr>"] obtain pt where
    "foldl (addTimePlayed now) (m\<lparr>playtime := pt1\<rparr>) ps = m\<lparr>playtime := pt1\<rparr>\<lparr>playtime := pt\<rparr>" ..
  then show ?case by (intro exI [of _ pt]) (simp add: one)
qed


section \<open>Ending a match\<close>

subsection \<open>A match needs a result\<close>

text \<open>
  Claim C8. Ending an ongoing match of type \<^verbatim>\<open>match\<close> without a \<^verbatim>\<open>matchResult\<close>, or with
  one whose \<^verbatim>\<open>result\<close> is not \<^verbatim>\<open>win\<close>, \<^verbatim>\<open>loss\<close> or \<^verbatim>\<open>draw\<close>, is answered 400 with
  the message of the missing or of the invalid result, and the store is left as it was: the
  match found under the id is still the ongoing match with its ledger and performances,
  although the handler has by then updated the ledger and the status of its own copy.
\<close>

theorem end_match_requires_result:
  assumes "findMatchById d i = Some m" and "status m = Ongoing" and "mtype m = TypeMatch"
  shows "(eb_matchResult b = None \<longrightarrow>
            endMatch d now i b =
              (Failure 400 ''Match result is required when ending a match'', d)) \<and>
         (\<forall>r. eb_matchResult b = Some r \<and>
               rb_result r \<notin> {Some ''win'', Some ''loss'', Some ''draw''} \<longrightarrow>
            endMatch d now i b = (Failure 400 ''Match result must be win, loss, or draw'', d)) \<and>
         (eb_matchResult b = None \<or>
          (\<exists>r. eb_matchResult b = Some r \<and>
               rb_result r \<notin> {Some ''win'', Some ''loss'', Some ''draw''}) \<longrightarrow>
            findMatchById (snd (endMatch d now i b)) i = Some m)"
proof -
  obtain pt where m1: "foldl (addTimePlayed now) m (populateTeamSheet d m) = m\<lparr>playtime := pt\<rparr>"
    using foldl_addTimePlayed by blast
  have none: "endMatch d now i b = (Failure 400 ''Match result is required when ending a match'', d)"
    if "eb_matchResult b = None"
    using assms that by (simp add: endMatch_def Let_def m1)
  have bad: "endMatch d now i b = (Failure 400 ''Match result must be win, loss, or draw'', d)"
    if "eb_matchResult b = Some r" "rb_result r \<notin> {Some ''win'', Some ''loss'', Some ''draw''}" for r
    using assms that by (simp add: endMatch_def Let_def m1)
  from none bad assms(1) show ?thesis by auto
qed

text \<open>The cup match, ended without a result and with the result \<^verbatim>\<open>victory\<close>.\<close>

theorem end_match_requires_result_witness:
  "endMatch cup_db (90 * 60000) 1 \<lparr>eb_matchResult = None, eb_playerPerformances = None\<rparr> =
     (Failure 400 ''Match result is required when ending a match'', cup_db) \<and>
   endMatch cup_db (90 * 60000) 1
     \<lparr>eb_matchResult = Some \<lparr>rb_result = Some ''victory'', rb_ourScore = Some 2,
                                rb_opponentScore = Some 1\<rparr>,
      eb_playerPerformances = None\<rparr> =
     (Failure 400 ''Match result must be win, loss, or draw'', cup_db) \<and>
   findMatchById cup_db 1 = Some cup_match \<and> status cup_match = Ongoing"
proof -
  have found: "findMatchById cup_db 1 = Some cup_match"
    by (simp add: findMatchById_def cup_db_def cup_match_def)
  have ongoing: "status cup_match = Ongoing" and kind: "mtype cup_match = TypeMatch"
    by (simp_all add: cup_match_def)
  from end_match_requires_result [OF found ongoing kind,
      of "\<lparr>eb_matchResult = None, eb_playerPerformances = None\<rparr>" "90 * 60000"]
    end_match_requires_result [OF found ongoing kind,
      of "\<lparr>eb_matchResult = Some \<lparr>rb_result = Some ''victory'', rb_ourScore = Some 2,
                                rb_opponentScore = Some 1\<rparr>,
      eb_playerPerformances = None\<rparr>" "90 * 60000"]
    found ongoing
  show ?thesis by simp
qed

subsection \<open>The score of a completed match\<close>

text \<open>
  Claim C1 says that the stored \<^verbatim>\<open>ourScore\<close> of every match completed by \<^verbatim>\<open>endMatch\<close> is
  the sum of the goals of its performances, whatever score the caller submits. The handler
  calls \<^verbatim>\<open>validateMatchResult\<close>, which recomputes the score, only inside the branch that
  processes a \<^verbatim>\<open>playerPerformances\<close> array. When the cup match is ended with the result
  \<^verbatim>\<open>win\<close>, a submitted score of 10 and no performances in the body, the answer is 200, the
  stored match is completed and of type \<^verbatim>\<open>match\<close>, its \<^verbatim>\<open>ourScore\<close> is 10, and the goals
  of its performances sum to 0.
\<close>

theorem end_match_score_not_recomputed:
  "endMatch cup_db (90 * 60000) 1 (cup_body\<lparr>eb_playerPerformances := None\<rparr>) =
     (Success 200 cup_unscored,
      cup_db\<lparr>matches := [cup_unscored], stats := [cup_statistics 1 0, cup_statistics 2 0]\<rparr>) \<and>
   status cup_unscored = Completed \<and> mtype cup_unscored = TypeMatch \<and>
   map_option ourScore (matchResult cup_unscored) = Some 10 \<and>
   calculateTeamGoals cup_unscored = 0"
  by code_simp

subsection \<open>Statistics after finalization\<close>

text \<open>
  Claim C2 says that after finalization every player id of the team sheet has exactly one
  statistics record for the match. \<^verbatim>\<open>endMatch\<close> loads the match with its team sheet
  populated, and the second loop of \<^verbatim>\<open>createStatisticsFromMatch\<close>, written to give a record
  to every player of the team sheet and even to one whose Player document is not found,
  runs over the populated array, which holds no element for such a player. The cup match
  with players 1 and 9 on the team sheet, player 9 having no Player document, is ended with
  answer 200 and stored as completed with both ids on its team sheet; player 1 has one
  record for the match and player 9 has none. Materializing the completed match again
  succeeds and leaves the records as they are.
\<close>

theorem finalization_misses_deleted_player:
  "findMatchById orphan_db 1 = Some orphan_match \<and> status orphan_match = Ongoing \<and>
   teamSheet orphan_match = [1, 9] \<and> findPlayerById orphan_db 9 = None \<and>
   endMatch orphan_db (90 * 60000) 1 orphan_body = (Success 200 orphan_final, orphan_after) \<and>
   findMatchById orphan_after 1 = Some orphan_final \<and>
   status orphan_final = Completed \<and> teamSheet orphan_final = [1, 9] \<and>
   recordsOf orphan_after 1 1 = 1 \<and> recordsOf orphan_after 9 1 = 0 \<and>
   fst (createStatisticsFromMatch orphan_final (populateTeamSheet orphan_after orphan_final)
          orphan_after) = None \<and>
   stats (snd (createStatisticsFromMatch orphan_final (populateTeamSheet orphan_after orphan_final)
          orphan_after)) = stats orphan_after"
  by code_simp

section \<open>The life cycle of a match\<close>

subsection \<open>Starting\<close>

text \<open>
  Claim C6 says that a successful start leaves a ledger entry of 0 minutes for every player
  of the team sheet. \<^verbatim>\<open>startMatch\<close>, which creates a match with an inline team sheet, sets
  these entries; \<^verbatim>\<open>startExistingMatch\<close>, which starts a scheduled match, only sets the
  status. Started by \<^verbatim>\<open>startExistingMatch\<close>, the scheduled match with the team sheet of
  players 1 and 2 is answered 200 and stored as ongoing with a ledger that has no entry,
  while \<^verbatim>\<open>startMatch\<close> with the same team sheet answers a match whose ledger holds 0 for both
  players.
\<close>

theorem start_existing_match_no_ledger:
  "status planned = Scheduled \<and> teamSheet planned = [1, 2] \<and>
   startExistingMatch planned_db 1 =
     (Success 200 (planned\<lparr>status := Ongoing\<rparr>),
      planned_db\<lparr>matches := [planned\<lparr>status := Ongoing\<rparr>]\<rparr>) \<and>
   playtime (planned\<lparr>status := Ongoing\<rparr>) = [] \<and>
   map_option playtime (responseData (fst (startMatch planned_db 0 kickoff_body))) =
     Some [(IdKey 1, 0), (IdKey 2, 0)]"
  by code_simp

subsection \<open>Cancelling\<close>

text \<open>
  Claim C9 says that an ongoing match never becomes cancelled without being ended first.
  \<^verbatim>\<open>cancelSchedule\<close> refuses an ongoing match, but \<^verbatim>\<open>updateSchedule\<close>, whose comment
  reads \<^verbatim>\<open>Prevent updating completed or ongoing matches\<close>, refuses completed matches only and
  assigns the body to the stored document, status included. For the ongoing cup match the
  cancel request is answered 400 and changes nothing, and the update request with a date,
  a type and the status \<^verbatim>\<open>cancelled\<close> passes the route's validation, is answered 200 and
  stores the match as cancelled.
\<close>

theorem update_cancels_ongoing_match:
  "status cup_match = Ongoing \<and>
   cancelSchedule cup_db 1 =
     (Failure 400 ''Cannot cancel ongoing matches. End the match first.'', cup_db) \<and>
   validateMatch cancel_body = None \<and>
   putSchedule cup_db 0 1 cancel_body =
     (Success 200 cup_cancelled, cup_db\<lparr>matches := [cup_cancelled]\<rparr>) \<and>
   findMatchById (cup_db\<lparr>matches := [cup_cancelled]\<rparr>) 1 = Some cup_cancelled \<and>
   status cup_cancelled = Cancelled"
  by code_simp

section \<open>Team generation\<close>

lemma fillRemaining_prefix: "\<exists>ys. fillRemaining n sel rem = sel @ ys \<and> set ys \<subseteq> set rem"
proof (induction rem arbitrary: sel)
  case Nil
  then show ?case by simp
next
  case (Cons p rem)
  show ?case
  proof (cases "int (length sel) < n")
    case True
    from Cons.IH [of "sel @ [p]"] obtain ys where
      "fillRemaining n (sel @ [p]) rem = (sel @ [p]) @ ys" "set ys \<subseteq> set rem" by blast
    with True show ?thesis by (intro exI [of _ "p # ys"]) auto
  next
    case False
    then show ?thesis by simp
  qed
qed

lemma fillRemaining_length:
  "length (fillRemaining n sel rem) =
     (if int (length sel) < n then min (nat n) (length sel + length rem) else length sel)"
proof (induction rem arbitrary: sel)
  case Nil
  then show ?case by auto
next
  case (Cons p rem)
  then show ?case by auto
qed

lemma length_filter_not_mem:
  assumes "distinct xs"
  shows "length xs \<le> length (filter (\<lambda>p. p \<notin> set sel) xs) + length sel"
proof -
  have "set xs \<subseteq> set (filter (\<lambda>p. p \<notin> set sel) xs) \<union> set sel" by auto
  then have "card (set xs) \<le> card (set (filter (\<lambda>p. p \<notin> set sel) xs) \<union> set sel)"
    by (intro card_mono) auto
  also have "\<dots> \<le> card (set (filter (\<lambda>p. p \<notin> set sel) xs)) + card (set sel)"
    by (rule card_Un_le)
  also have "\<dots> \<le> length (filter (\<lambda>p. p \<notin> set sel) xs) + length sel"
    by (intro add_mono card_length)
  finally show ?thesis using assms by (simp add: distinct_card)
qed

lemma generateOptimalTeam_442:
  "generateOptimalTeam av pt ''4-4-2'' pr =
     (let sel = take 1 (sort_key (selectionScore pt pr ''Goalkeeper'') (bucket av ''Goalkeeper'')) @
                take 4 (sort_key (selectionScore pt pr ''Defender'') (bucket av ''Defender'')) @
                take 4 (sort_key (selectionScore pt pr ''Midfielder'') (bucket av ''Midfielder'')) @
                take 2 (sort_key (selectionScore pt pr ''Forward'') (bucket av ''Forward''))
      in take 11 (if length sel < 11
                  then fillRemaining 11 sel
                         (sort_key (recentMinutes pt) (filter (\<lambda>p. p \<notin> set sel) av))
                  else sel))"
  by (simp add: generateOptimalTeam_def parseInt_def isBlank_def isDigit_def digitsValue_def
      nthOrUndefined_def plusNaN_def takeNeeded_def Let_def)

lemma bucket_subset: "set (bucket av pos) \<subseteq> set av"
  by (auto simp: bucket_def)

lemma generateOptimalTeam_442_length:
  assumes "distinct av" and "11 \<le> length av"
  shows "length (generateOptimalTeam av pt ''4-4-2'' pr) = 11"
proof -
  define sel where "sel =
      take 1 (sort_key (selectionScore pt pr ''Goalkeeper'') (bucket av ''Goalkeeper'')) @
      take 4 (sort_key (selectionScore pt pr ''Defender'') (bucket av ''Defender'')) @
      take 4 (sort_key (selectionScore pt pr ''Midfielder'') (bucket av ''Midfielder'')) @
      take 2 (sort_key (selectionScore pt pr ''Forward'') (bucket av ''Forward''))"
  define rem where "rem = sort_key (recentMinutes pt) (filter (\<lambda>p. p \<notin> set sel) av)"
  have team: "generateOptimalTeam av pt ''4-4-2'' pr =
      take 11 (if length sel < 11 then fillRemaining 11 sel rem else sel)"
    by (simp add: generateOptimalTeam_442 sel_def rem_def Let_def)
  have le: "length sel \<le> 11" by (simp add: sel_def)
  have "length av \<le> length rem + length sel"
    using length_filter_not_mem [OF assms(1), of sel] by (simp add: rem_def)
  with assms(2) have enough: "11 \<le> length sel + length rem" by simp
  show ?thesis
  proof (cases "length sel < 11")
    case True
    then have "length (fillRemaining 11 sel rem) = 11"
      using enough by (simp add: fillRemaining_length)
    with True show ?thesis by (simp add: team)
  next
    case False
    with le show ?thesis by (simp add: team)
  qed
qed

lemma generateOptimalTeam_442_subset:
  "set (generateOptimalTeam av pt ''4-4-2'' pr) \<subseteq> set av"
proof -
  define sel where "sel =
      take 1 (sort_key (selectionScore pt pr ''Goalkeeper'') (bucket av ''Goalkeeper'')) @
      take 4 (sort_key (selectionScore pt pr ''Defender'') (bucket av ''Defender'')) @
      take 4 (sort_key (selectionScore pt pr ''Midfielder'') (bucket av ''Midfielder'')) @
      take 2 (sort_key (selectionScore pt pr ''Forward'') (bucket av ''Forward''))"
  define rem where "rem = sort_key (recentMinutes pt) (filter (\<lambda>p. p \<notin> set sel) av)"
  have team: "generateOptimalTeam av pt ''4-4-2'' pr =
      take 11 (if length sel < 11 then fillRemaining 11 sel rem else sel)"
    by (simp add: generateOptimalTeam_442 sel_def rem_def Let_def)
  have part: "set (take n (sort_key f (bucket av pos))) \<subseteq> set av" for n f pos
    using set_take_subset [of n "sort_key f (bucket av pos)"] bucket_subset [of av pos] by auto
  have sel: "set sel \<subseteq> set av"
    by (simp add: sel_def part)
  have rem: "set rem \<subseteq> set av" by (auto simp: rem_def)
  obtain ys where "fillRemaining 11 sel rem = sel @ ys" "set ys \<subseteq> set rem"
    using fillRemaining_prefix by blast
  with sel rem have "set (fillRemaining 11 sel rem) \<subseteq> set av" by auto
  with sel have "set (if length sel < 11 then fillRemaining 11 sel rem else sel) \<subseteq> set av"
    by simp
  then show ?thesis
    unfolding team using set_take_subset by fastforce
qed

lemma generateOptimalTeam_442_goalkeeper:
  assumes "\<exists>p \<in> set av. position p = ''Goalkeeper''"
  shows "\<exists>g rest. generateOptimalTeam av pt ''4-4-2'' pr = g # rest \<and> position g = ''Goalkeeper''"
proof -
  define gks where "gks = sort_key (selectionScore pt pr ''Goalkeeper'') (bucket av ''Goalkeeper'')"
  define others where "others =
      take 4 (sort_key (selectionScore pt pr ''Defender'') (bucket av ''Defender'')) @
      take 4 (sort_key (selectionScore pt pr ''Midfielder'') (bucket av ''Midfielder'')) @
      take 2 (sort_key (selectionScore pt pr ''Forward'') (bucket av ''Forward''))"
  define sel where "sel = take 1 gks @ others"
  define rem where "rem = sort_key (recentMinutes pt) (filter (\<lambda>p. p \<notin> set sel) av)"
  have team: "generateOptimalTeam av pt ''4-4-2'' pr =
      take 11 (if length sel < 11 then fillRemaining 11 sel rem else sel)"
    by (simp add: generateOptimalTeam_442 sel_def rem_def gks_def others_def Let_def)
  have "set gks = {p \<in> set av. position p = ''Goalkeeper''}"
    by (auto simp: gks_def bucket_def)
  with assms have "gks \<noteq> []" by auto
  then obtain g gs where gks: "gks = g # gs" by (cases gks) auto
  have "g \<in> set gks" by (simp add: gks)
  then have g: "position g = ''Goalkeeper''" by (auto simp: gks_def bucket_def)
  have sel: "sel = g # others" by (simp add: sel_def gks)
  obtain ys where "fillRemaining 11 sel rem = sel @ ys"
    using fillRemaining_prefix by blast
  then have "\<exists>zs. (if length sel < 11 then fillRemaining 11 sel rem else sel) = g # zs"
    by (simp add: sel)
  then obtain zs where "(if length sel < 11 then fillRemaining 11 sel rem else sel) = g # zs" ..
  then have "generateOptimalTeam av pt ''4-4-2'' pr = g # take 10 zs"
    by (simp add: team)
  with g show ?thesis by blast
qed

lemma distinct_eligiblePlayers:
  "distinct (map p_id (players d)) \<Longrightarrow> distinct (eligiblePlayers d)"
  by (simp add: eligiblePlayers_def distinct_map)

lemma outfield_bucket_no_goalkeeper:
  assumes "\<forall>p \<in> set av. position p = ''Goalkeeper'' \<longrightarrow>
             set (preferredPositions p) \<inter> {''Defender'', ''Midfielder'', ''Forward''} = {}"
    and "pos \<in> {''Defender'', ''Midfielder'', ''Forward''}"
  shows "filter (\<lambda>p. position p = ''Goalkeeper'') (take n (sort_key f (bucket av pos))) = []"
proof -
  have "\<forall>p \<in> set (bucket av pos). position p \<noteq> ''Goalkeeper''"
    using assms by (auto simp: bucket_def)
  then have "\<forall>p \<in> set (take n (sort_key f (bucket av pos))). position p \<noteq> ''Goalkeeper''"
    using set_take_subset [of n "sort_key f (bucket av pos)"] by auto
  then show ?thesis by (simp add: filter_empty_conv)
qed

lemma generateOptimalTeam_442_one_goalkeeper:
  assumes gk: "\<exists>p \<in> set av. position p = ''Goalkeeper''"
    and pure: "\<forall>p \<in> set av. position p = ''Goalkeeper'' \<longrightarrow>
             set (preferredPositions p) \<inter> {''Defender'', ''Midfielder'', ''Forward''} = {}"
    and depth: "4 \<le> length (bucket av ''Defender'')" "4 \<le> length (bucket av ''Midfielder'')"
      "2 \<le> length (bucket av ''Forward'')"
  shows "countGoalkeepers (generateOptimalTeam av pt ''4-4-2'' pr) = 1"
proof -
  define gks where "gks = sort_key (selectionScore pt pr ''Goalkeeper'') (bucket av ''Goalkeeper'')"
  define ds where "ds = take 4 (sort_key (selectionScore pt pr ''Defender'') (bucket av ''Defender''))"
  define ms where "ms = take 4 (sort_key (selectionScore pt pr ''Midfielder'') (bucket av ''Midfielder''))"
  define fs where "fs = take 2 (sort_key (selectionScore pt pr ''Forward'') (bucket av ''Forward''))"
  define sel where "sel = take 1 gks @ ds @ ms @ fs"
  have "set gks = {p \<in> set av. position p = ''Goalkeeper''}"
    by (auto simp: gks_def bucket_def)
  with gk have "gks \<noteq> []" by auto
  then obtain g gs where gks: "gks = g # gs" by (cases gks) auto
  have "g \<in> set gks" by (simp add: gks)
  then have g: "position g = ''Goalkeeper''" by (auto simp: gks_def bucket_def)
  have len: "length ds = 4" "length ms = 4" "length fs = 2"
    using depth by (simp_all add: ds_def ms_def fs_def)
  have full: "length sel = 11" by (simp add: sel_def gks len)
  have team: "generateOptimalTeam av pt ''4-4-2'' pr = sel"
    using full by (simp add: generateOptimalTeam_442 sel_def gks_def ds_def ms_def fs_def Let_def)
  have none: "filter (\<lambda>p. position p = ''Goalkeeper'') ds = []"
    "filter (\<lambda>p. position p = ''Goalkeeper'') ms = []"
    "filter (\<lambda>p. position p = ''Goalkeeper'') fs = []"
    unfolding ds_def ms_def fs_def by (rule outfield_bucket_no_goalkeeper [OF pure], simp)+
  show ?thesis
    by (simp add: team countGoalkeepers_def sel_def gks g none)
qed

text \<open>
  Claim C7, amended. Let the match be scheduled and stored with valid fields, let the ids of
  the player documents be distinct, let at least 11 players be eligible (available, and
  healthy or with a minor injury), and let the formation be \<^verbatim>\<open>4-4-2\<close>, given or by
  default. Then team generation answers 200, stores the ids of the generated team as the
  team sheet of the match, and the team has exactly 11 entries, all of them eligible
  players. When a goalkeeper is eligible, the team has at least one goalkeeper. It has
  exactly one when, moreover, no eligible goalkeeper lists Defender, Midfielder or Forward
  among the preferred positions and the Defender, Midfielder and Forward buckets hold at
  least 4, 4 and 2 players.
\<close>

theorem team_generation_442:
  assumes "findMatchById d i = Some m" and "status m = Scheduled" and "validMatch m"
    and "distinct (map p_id (players d))" and "11 \<le> length (eligiblePlayers d)"
    and "fp = None \<or> fp = Some ''4-4-2''"
  shows "\<exists>team. generateTeamSheet d now i fp pr =
            (Success 200 (m\<lparr>teamSheet := map p_id team\<rparr>, team),
             saveMatch (m\<lparr>teamSheet := map p_id team\<rparr>) d) \<and>
          length team = 11 \<and> set team \<subseteq> set (eligiblePlayers d) \<and>
          ((\<exists>p \<in> set (eligiblePlayers d). position p = ''Goalkeeper'') \<longrightarrow>
             1 \<le> countGoalkeepers team) \<and>
          ((\<exists>p \<in> set (eligiblePlayers d). position p = ''Goalkeeper'') \<and>
           (\<forall>p \<in> set (eligiblePlayers d). position p = ''Goalkeeper'' \<longrightarrow>
              set (preferredPositions p) \<inter> {''Defender'', ''Midfielder'', ''Forward''} = {}) \<and>
           4 \<le> length (bucket (eligiblePlayers d) ''Defender'') \<and>
           4 \<le> length (bucket (eligiblePlayers d) ''Midfielder'') \<and>
           2 \<le> length (bucket (eligiblePlayers d) ''Forward'') \<longrightarrow>
             countGoalkeepers team = 1)"
proof -
  define av where "av = eligiblePlayers d"
  define pt where "pt = recentPlaytime av (recentMatches d now m)"
  define team where "team = generateOptimalTeam av pt ''4-4-2'' pr"
  have formation: "(case fp of None \<Rightarrow> ''4-4-2'' | Some f \<Rightarrow> if f = [] then ''4-4-2'' else f) = ''4-4-2''"
    using assms(6) by auto
  have valid: "validMatch (m\<lparr>teamSheet := map p_id team\<rparr>)"
    using assms(3) by (simp add: validMatch_def)
  have run: "generateTeamSheet d now i fp pr =
      (Success 200 (m\<lparr>teamSheet := map p_id team\<rparr>, team), saveMatch (m\<lparr>teamSheet := map p_id team\<rparr>) d)"
    using assms(1,2,5) valid
    by (simp add: generateTeamSheet_def Let_def formation av_def pt_def team_def)
  have dist: "distinct av"
    unfolding av_def by (rule distinct_eligiblePlayers [OF assms(4)])
  have len: "length team = 11"
    unfolding team_def using dist assms(5) by (intro generateOptimalTeam_442_length) (simp_all add: av_def)
  have sub: "set team \<subseteq> set av"
    unfolding team_def by (rule generateOptimalTeam_442_subset)
  have atleast: "1 \<le> countGoalkeepers team" if "\<exists>p \<in> set av. position p = ''Goalkeeper''"
  proof -
    from generateOptimalTeam_442_goalkeeper [OF that, of pt pr] obtain g rest where
      "team = g # rest" "position g = ''Goalkeeper''" unfolding team_def by blast
    then show ?thesis by (simp add: countGoalkeepers_def)
  qed
  have exactly: "countGoalkeepers team = 1"
    if "\<exists>p \<in> set av. position p = ''Goalkeeper''"
      "\<forall>p \<in> set av. position p = ''Goalkeeper'' \<longrightarrow>
              set (preferredPositions p) \<inter> {''Defender'', ''Midfielder'', ''Forward''} = {}"
      "4 \<le> length (bucket av ''Defender'')" "4 \<le> length (bucket av ''Midfielder'')"
      "2 \<le> length (bucket av ''Forward'')"
    unfolding team_def using that by (rule generateOptimalTeam_442_one_goalkeeper)
  show ?thesis
    using run len sub atleast exactly unfolding av_def by (intro exI [of _ team]) blast
qed

text \<open>The squad of a goalkeeper, four defenders, four midfielders and three forwards.\<close>

theorem team_generation_442_witness:
  "generateTeamSheet full_db 0 1 (Some ''4-4-2'') True =
     (Success 200 (fixture\<lparr>teamSheet := map p_id full_team\<rparr>, full_team),
      saveMatch (fixture\<lparr>teamSheet := map p_id full_team\<rparr>) full_db) \<and>
   length full_team = 11 \<and> countGoalkeepers full_team = 1 \<and>
   length (eligiblePlayers full_db) = 12"
proof -
  have found: "findMatchById full_db 1 = Some fixture" by code_simp
  have scheduled: "status fixture = Scheduled" by code_simp
  have valid: "validMatch fixture" by code_simp
  have ids: "distinct (map p_id (players full_db))" by code_simp
  have squad: "length (eligiblePlayers full_db) = 12" by code_simp
  then have enough: "11 \<le> length (eligiblePlayers full_db)" by simp
  have keeper: "\<exists>p \<in> set (eligiblePlayers full_db). position p = ''Goalkeeper''" by code_simp
  have pure: "\<forall>p \<in> set (eligiblePlayers full_db). position p = ''Goalkeeper'' \<longrightarrow>
      set (preferredPositions p) \<inter> {''Defender'', ''Midfielder'', ''Forward''} = {}"
    by code_simp
  have depth: "4 \<le> length (bucket (eligiblePlayers full_db) ''Defender'')"
    "4 \<le> length (bucket (eligiblePlayers full_db) ''Midfielder'')"
    "2 \<le> length (bucket (eligiblePlayers full_db) ''Forward'')"
    by code_simp+
  from team_generation_442 [OF found scheduled valid ids enough, of "Some ''4-4-2''" 0 True]
  obtain team where team:
    "generateTeamSheet full_db 0 1 (Some ''4-4-2'') True =
       (Success 200 (fixture\<lparr>teamSheet := map p_id team\<rparr>, team),
        saveMatch (fixture\<lparr>teamSheet := map p_id team\<rparr>) full_db)"
    "length team = 11" "countGoalkeepers team = 1"
    using keeper pure depth by auto
  have "snd (the (responseData (fst (generateTeamSheet full_db 0 1 (Some ''4-4-2'') True)))) = full_team"
    by code_simp
  with team(1) have "team = full_team" by (simp add: responseData_def)
  with team squad show ?thesis by simp
qed

text \<open>
  Claim C7 as stated fails. With two goalkeepers and nine defenders, eleven eligible
  players in all, the Midfielder and Forward buckets are empty; the six open places are
  filled from the players not yet selected, the second goalkeeper among them, and the team
  of eleven holds two goalkeepers.
\<close>

theorem team_generation_442_counterexample:
  "status fixture = Scheduled \<and> length (eligiblePlayers thin_db) = 11 \<and>
   countGoalkeepers (eligiblePlayers thin_db) = 2 \<and>
   generateTeamSheet thin_db 0 1 (Some ''4-4-2'') False =
     (Success 200 (fixture\<lparr>teamSheet := [1, 3, 4, 5, 6, 2, 7, 8, 9, 10, 11]\<rparr>, thin_team),
      thin_db\<lparr>matches := [fixture\<lparr>teamSheet := [1, 3, 4, 5, 6, 2, 7, 8, 9, 10, 11]\<rparr>]\<rparr>) \<and>
   length thin_team = 11 \<and> countGoalkeepers thin_team = 2"
  by code_simp

end
